theory Spec2Isabelle
  imports Complex_Main
begin

text \<open>
  The component \<open>Home\<close> of \<open>src/app/page.tsx\<close>: for every subcategory of the upstream
  catalog it pages through the teacher listings, averages the hourly prices and posts the
  average back. The model covers \<open>fetchCategories\<close>, \<open>fetchAllTeachersForCategory\<close>,
  \<open>postAveragePrice\<close> and \<open>handleCalculatePrices\<close> with the React state they set. Logging
  (\<open>console.error\<close>) and rendering have no effect on that state and are left out.
\<close>

section \<open>JavaScript numbers\<close>

text \<open>
  Every \<open>number\<close> of the component (\<open>pricePerHour\<close>, \<open>totalPrice\<close>,
  \<open>averagePrice\<close>) is an IEEE 754 binary64 value. \<open>Fin x\<close> is the finite double
  whose exact value is \<open>x\<close>. The two zeros are one value here: the component never
  divides by a number that can be zero and never inspects the sign of a zero, so the sign
  is not observable.
\<close>

datatype jsnum = NaN | PosInf | NegInf | Fin real

text \<open>\<open>log2floor a\<close> is the binary exponent of a positive \<open>a\<close>:
  \<open>2 ^ e \<le> a < 2 ^ (e + 1)\<close>.\<close>

function log2floor :: "real \<Rightarrow> int" where
  "log2floor a =
     (if a \<le> 0 then 0
      else if 2 \<le> a then log2floor (a / 2) + 1
      else if a < 1 then log2floor (a * 2) - 1
      else 0)"
  by pat_completeness auto
termination
proof (relation "measure (\<lambda>a. nat (2 * \<lceil>1 / a\<rceil> + \<lfloor>a\<rfloor>))", goal_cases)
  case 1
  show ?case by simp
next
  case (2 a)
  then have a2: "2 \<le> a" by simp
  have c1: "\<lceil>1 / (a / 2)\<rceil> = 1" using a2 by (intro ceiling_unique) auto
  have c2: "\<lceil>1 / a\<rceil> = 1" using a2 by (intro ceiling_unique) auto
  have "a / 2 \<le> a - 1" using a2 by simp
  then have "\<lfloor>a / 2\<rfloor> \<le> \<lfloor>a - 1\<rfloor>" by (rule floor_mono)
  then have f: "\<lfloor>a / 2\<rfloor> < \<lfloor>a\<rfloor>" by simp
  have g: "0 \<le> \<lfloor>a / 2\<rfloor>" using a2 by simp
  have "nat (2 * \<lceil>1 / (a / 2)\<rceil> + \<lfloor>a / 2\<rfloor>) < nat (2 * \<lceil>1 / a\<rceil> + \<lfloor>a\<rfloor>)"
    using f g unfolding c1 c2 by linarith
  then show ?case by (simp only: in_measure)
next
  case (3 a)
  then have a0: "0 < a" and a1: "a < 1" by simp_all
  have x: "1 < 1 / a" using a0 a1 by simp
  have f0: "\<lfloor>a\<rfloor> = 0" using a0 a1 by (intro floor_unique) auto
  have f1: "\<lfloor>a * 2\<rfloor> \<le> 1" using a1 by (simp add: floor_le_iff)
  have f2: "0 \<le> \<lfloor>a * 2\<rfloor>" using a0 by simp
  have c2: "2 \<le> \<lceil>1 / a\<rceil>" using x by (simp add: le_ceiling_iff)
  have "1 / (a * 2) \<le> of_int (\<lceil>1 / a\<rceil> - 1)"
  proof (cases "1 / a \<le> 2")
    case True
    then have "1 / (a * 2) \<le> 1" using a0 by (simp add: field_simps)
    also have "1 \<le> (of_int (\<lceil>1 / a\<rceil> - 1) :: real)" using c2 by simp
    finally show ?thesis .
  next
    case False
    then have "1 / (a * 2) < 1 / a - 1" using a0 by (simp add: field_simps)
    also have "\<dots> \<le> of_int (\<lceil>1 / a\<rceil> - 1)" by simp
    finally show ?thesis by simp
  qed
  then have c3: "\<lceil>1 / (a * 2)\<rceil> \<le> \<lceil>1 / a\<rceil> - 1" by (simp only: ceiling_le_iff)
  have c4: "0 < \<lceil>1 / (a * 2)\<rceil>" using a0 by simp
  have "nat (2 * \<lceil>1 / (a * 2)\<rceil> + \<lfloor>a * 2\<rfloor>) < nat (2 * \<lceil>1 / a\<rceil> + \<lfloor>a\<rfloor>)"
    using c3 c4 f1 f2 c2 unfolding f0 by linarith
  then show ?case by (simp only: in_measure)
qed

declare log2floor.simps [simp del]

definition pow2 :: "int \<Rightarrow> real" where
  "pow2 e = (if 0 \<le> e then 2 ^ nat e else 1 / 2 ^ nat (- e))"

text \<open>Round to the nearest integer, a tie to the even neighbour (the rounding mode of
  every binary64 operation).\<close>

definition round_half_even :: "real \<Rightarrow> int" where
  "round_half_even x =
     (let f = \<lfloor>x\<rfloor>; d = x - of_int f
      in if d < 1 / 2 then f else if 1 / 2 < d then f + 1 else if even f then f else f + 1)"

text \<open>
  The magnitude of the double nearest to a positive \<open>a\<close>: a 53-bit significand at the
  exponent of \<open>a\<close>, which is not below \<open>-1022\<close> (below it the doubles are subnormal and
  equally spaced). The exponent is not bounded above here; \<open>rnd64\<close> turns a result of
  \<open>2 ^ 1024\<close> or more into an infinity.
\<close>

definition rnd64_mag :: "real \<Rightarrow> real" where
  "rnd64_mag a =
     (let e = max (log2floor a) (- 1022); u = pow2 (e - 52)
      in of_int (round_half_even (a / u)) * u)"

definition rnd64 :: "real \<Rightarrow> jsnum" where
  "rnd64 q =
     (if q = 0 then Fin 0
      else let r = rnd64_mag \<bar>q\<bar>
           in if pow2 1024 \<le> r then (if 0 < q then PosInf else NegInf)
              else Fin (if 0 < q then r else - r))"

text \<open>The double a decimal literal denotes (a price \<open>10.01\<close> of a JSON body, the literal
  \<open>100\<close> of the source).\<close>

definition js_literal :: "real \<Rightarrow> jsnum" where
  "js_literal q = rnd64 q"

text \<open>\<open>a + b\<close>\<close>

fun js_add :: "jsnum \<Rightarrow> jsnum \<Rightarrow> jsnum" where
  "js_add NaN b = NaN"
| "js_add a NaN = NaN"
| "js_add PosInf NegInf = NaN"
| "js_add NegInf PosInf = NaN"
| "js_add PosInf b = PosInf"
| "js_add a PosInf = PosInf"
| "js_add NegInf b = NegInf"
| "js_add a NegInf = NegInf"
| "js_add (Fin a) (Fin b) = rnd64 (a + b)"

text \<open>\<open>a * b\<close>\<close>

fun js_mul :: "jsnum \<Rightarrow> jsnum \<Rightarrow> jsnum" where
  "js_mul NaN b = NaN"
| "js_mul a NaN = NaN"
| "js_mul (Fin a) (Fin b) = rnd64 (a * b)"
| "js_mul (Fin a) PosInf = (if a = 0 then NaN else if 0 < a then PosInf else NegInf)"
| "js_mul (Fin a) NegInf = (if a = 0 then NaN else if 0 < a then NegInf else PosInf)"
| "js_mul PosInf (Fin b) = (if b = 0 then NaN else if 0 < b then PosInf else NegInf)"
| "js_mul NegInf (Fin b) = (if b = 0 then NaN else if 0 < b then NegInf else PosInf)"
| "js_mul PosInf PosInf = PosInf"
| "js_mul PosInf NegInf = NegInf"
| "js_mul NegInf PosInf = NegInf"
| "js_mul NegInf NegInf = PosInf"

text \<open>\<open>a / d\<close> for a finite double \<open>d > 0\<close>. The component divides twice: by the
  contributing count, behind the test \<open>teachersWithPriceForCategory > 0\<close>, and by the
  literal \<open>100\<close>.\<close>

fun js_div_by :: "jsnum \<Rightarrow> real \<Rightarrow> jsnum" where
  "js_div_by NaN d = NaN"
| "js_div_by PosInf d = PosInf"
| "js_div_by NegInf d = NegInf"
| "js_div_by (Fin a) d = rnd64 (a / d)"

text \<open>\<open>Math.round\<close>: the nearest integer, a tie towards \<open>+\<infinity>\<close>. The integer is a
  double again (a double of magnitude \<open>2 ^ 52\<close> or more is an integer already).\<close>

fun js_round :: "jsnum \<Rightarrow> jsnum" where
  "js_round NaN = NaN"
| "js_round PosInf = PosInf"
| "js_round NegInf = NegInf"
| "js_round (Fin a) = Fin (of_int \<lfloor>a + 1 / 2\<rfloor>)"

text \<open>\<open>x < 0\<close>\<close>

fun js_negative :: "jsnum \<Rightarrow> bool" where
  "js_negative NegInf = True"
| "js_negative (Fin a) = (a < 0)"
| "js_negative PosInf = False"
| "js_negative NaN = False"

section \<open>Data\<close>

text \<open>What a parsed JSON body can hold in a field the interface types as \<open>number\<close>:
  the source tests the type at run time (\<open>typeof ... === "number"\<close>).\<close>

datatype jsval = JUndefined | JNull | JBool bool | JNumber jsnum | JString string | JObject

fun typeof :: "jsval \<Rightarrow> string" where
  "typeof JUndefined = ''undefined''"
| "typeof JNull = ''object''"
| "typeof (JBool b) = ''boolean''"
| "typeof (JNumber x) = ''number''"
| "typeof (JString s) = ''string''"
| "typeof JObject = ''object''"

text \<open>The interfaces of the source. A field the source guards with \<open>?.\<close> or \<open>|| []\<close> is
  an option: \<open>None\<close> is a missing (or null) field.\<close>

record subcategory =
  sub_id :: string
  sub_name :: string
  sub_code :: jsnum

record category =
  cat_id :: string
  cat_name :: string
  childrenCategories :: "subcategory list option"

record teacher_category_info =
  info_name :: string
  pricePerHour :: jsval

record teacher =
  teacher_id :: string
  categories :: "teacher_category_info list option"

record search_response =
  teachers :: "teacher list option"
  totalResults :: jsnum

datatype status = StatusSuccess | StatusError

record calculation_result =
  categoryName :: string
  averagePrice :: jsnum
  status :: status
  message :: "string option"

text \<open>The three pieces of React state of \<open>Home\<close>.\<close>

record ui_state =
  isLoading :: bool
  results :: "calculation_result list"
  error :: "string option"

section \<open>The platform\<close>

text \<open>
  A thrown value: an \<open>Error\<close> with its message, or any other value. What a call of
  \<open>fetch\<close> gives: the promise rejects (the request did not complete), or it resolves to
  a response with its \<open>ok\<close> flag and what \<open>response.json()\<close> would give (\<open>Inl\<close>: the body
  does not parse and \<open>json()\<close> rejects).
\<close>

datatype js_exn = JsError string | NonError

datatype 'a fetch = Rejects js_exn | Resolves bool "js_exn + 'a"

text \<open>The requests a subcategory's task sends: \<open>POST /search\<close> with \<open>categories\<close>,
  \<open>page\<close> and \<open>pageSize\<close>, and \<open>POST /average-price\<close> with \<open>categoryName\<close> and
  \<open>averagePrice\<close>.\<close>

datatype request =
  PostSearch "jsnum list" nat nat
| PostAveragePrice string jsnum

text \<open>
  Everything the component reaches outside itself: the upstream service, one answer per
  request, and the engine's conversion of a number to a string (used in a template
  literal). The page index and the contributing count are natural numbers: both count
  up from 0 by 1 and stay far below \<open>2 ^ 53\<close>, where a double is exact.
\<close>

record platform =
  categories_endpoint :: "category list option fetch"
  search_endpoint :: "jsnum list \<Rightarrow> nat \<Rightarrow> nat \<Rightarrow> search_response fetch"
  average_price_endpoint :: "string \<Rightarrow> jsnum \<Rightarrow> unit fetch"
  number_to_string :: "jsnum \<Rightarrow> string"

section \<open>fetchCategories\<close>

definition fetchCategories :: "platform \<Rightarrow> js_exn + category list option" where
  "fetchCategories P =
     (case categories_endpoint P of
        Rejects e \<Rightarrow> Inl e
      | Resolves ok body \<Rightarrow>
          if \<not> ok then Inl (JsError ''Failed to fetch categories'') else body)"

section \<open>fetchAllTeachersForCategory\<close>

definition pageSize :: nat where
  "pageSize = 10"

text \<open>
  The \<open>while (true)\<close> loop, with its variables \<open>page\<close> and \<open>allTeachers\<close> and the list of
  requests sent so far. \<open>None\<close>: the loop never ends. \<open>Inl\<close>: the function throws (the
  awaited \<open>fetch\<close> or \<open>json()\<close> rejects; nothing in the function catches it).
\<close>

partial_function (option) fetch_pages ::
  "platform \<Rightarrow> jsnum \<Rightarrow> nat \<Rightarrow> teacher list \<Rightarrow> request list
     \<Rightarrow> ((js_exn + teacher list) \<times> request list) option"
where
  "fetch_pages P categoryId page allTeachers sent =
     (let sent' = sent @ [PostSearch [categoryId] page pageSize] in
      case search_endpoint P [categoryId] page pageSize of
        Rejects e \<Rightarrow> Some (Inl e, sent')
      | Resolves ok body \<Rightarrow>
          if \<not> ok then Some (Inr allTeachers, sent')
          else (case body of
                  Inl e \<Rightarrow> Some (Inl e, sent')
                | Inr data \<Rightarrow>
                    let teachersOnPage = (case teachers data of None \<Rightarrow> [] | Some ts \<Rightarrow> ts) in
                    if length teachersOnPage = 0 then Some (Inr allTeachers, sent')
                    else fetch_pages P categoryId (page + 1) (allTeachers @ teachersOnPage) sent'))"

declare fetch_pages.simps [code]

definition fetchAllTeachersForCategory ::
  "platform \<Rightarrow> jsnum \<Rightarrow> ((js_exn + teacher list) \<times> request list) option" where
  "fetchAllTeachersForCategory P categoryId = fetch_pages P categoryId 0 [] []"

section \<open>postAveragePrice\<close>

definition postAveragePrice :: "platform \<Rightarrow> string \<Rightarrow> jsnum \<Rightarrow> js_exn + unit" where
  "postAveragePrice P name avg =
     (case average_price_endpoint P name avg of
        Rejects e \<Rightarrow> Inl e
      | Resolves ok body \<Rightarrow>
          if \<not> ok then Inl (JsError (''Failed to post average price for '' @ name))
          else Inr ())"

section \<open>handleCalculatePrices\<close>

subsection \<open>The aggregation of one subcategory\<close>

text \<open>\<open>teacher.categories?.find((cat) => cat.name === subcategory.name)\<close>\<close>

definition relevantCategory :: "teacher \<Rightarrow> string \<Rightarrow> teacher_category_info option" where
  "relevantCategory t name =
     (case categories t of
        None \<Rightarrow> None
      | Some cats \<Rightarrow> find (\<lambda>cat. info_name cat = name) cats)"

text \<open>The body of \<open>teachers.forEach\<close>, on the pair of \<open>totalPrice\<close> and
  \<open>teachersWithPriceForCategory\<close>.\<close>

definition forEach_body :: "string \<Rightarrow> jsnum \<times> nat \<Rightarrow> teacher \<Rightarrow> jsnum \<times> nat" where
  "forEach_body name acc t =
     (case relevantCategory t name of
        None \<Rightarrow> acc
      | Some cat \<Rightarrow>
          if typeof (pricePerHour cat) = ''number''
          then (case pricePerHour cat of
                  JNumber x \<Rightarrow> (js_add (fst acc) x, snd acc + 1)
                | _ \<Rightarrow> acc)
          else acc)"

definition scan_teachers :: "teacher list \<Rightarrow> string \<Rightarrow> jsnum \<times> nat" where
  "scan_teachers ts name = foldl (forEach_body name) (Fin 0, 0) ts"

definition average_of :: "jsnum \<times> nat \<Rightarrow> jsnum" where
  "average_of acc = (if snd acc > 0 then js_div_by (fst acc) (of_nat (snd acc)) else Fin 0)"

text \<open>\<open>Math.round(averagePrice * 100) / 100\<close>\<close>

definition round_cents :: "jsnum \<Rightarrow> jsnum" where
  "round_cents avg = js_div_by (js_round (js_mul avg (js_literal 100))) 100"

definition roundedAveragePrice :: "teacher list \<Rightarrow> string \<Rightarrow> jsnum" where
  "roundedAveragePrice ts name = round_cents (average_of (scan_teachers ts name))"

subsection \<open>One subcategory's task\<close>

text \<open>\<open>catError instanceof Error ? catError.message : "An unknown error occurred."\<close>\<close>

definition caught_message :: "js_exn \<Rightarrow> string" where
  "caught_message e = (case e of JsError m \<Rightarrow> m | NonError \<Rightarrow> ''An unknown error occurred.'')"

definition error_result :: "subcategory \<Rightarrow> js_exn \<Rightarrow> calculation_result" where
  "error_result sub e =
     \<lparr>categoryName = sub_name sub, averagePrice = Fin 0, status = StatusError,
      message = Some (caught_message e)\<rparr>"

definition success_result :: "platform \<Rightarrow> subcategory \<Rightarrow> teacher list \<Rightarrow> calculation_result" where
  "success_result P sub ts =
     \<lparr>categoryName = sub_name sub,
      averagePrice = roundedAveragePrice ts (sub_name sub),
      status = StatusSuccess,
      message = Some (''Successfully posted average price of ''
        @ number_to_string P (roundedAveragePrice ts (sub_name sub))
        @ '' for '' @ number_to_string P (Fin (of_nat (snd (scan_teachers ts (sub_name sub)))))
        @ '' teachers.'')\<rparr>"

text \<open>
  The callback of \<open>allSubcategories.map\<close>: a \<open>try\<close> around paging, aggregation and
  publishing, a \<open>catch\<close> that turns whatever was thrown into a result. It gives the
  result and the requests the task sent; \<open>None\<close> when its paging never ends.
\<close>

definition calculation ::
  "platform \<Rightarrow> subcategory \<Rightarrow> (calculation_result \<times> request list) option" where
  "calculation P sub =
     (case fetchAllTeachersForCategory P (sub_code sub) of
        None \<Rightarrow> None
      | Some (Inl catError, sent) \<Rightarrow> Some (error_result sub catError, sent)
      | Some (Inr ts, sent) \<Rightarrow>
          (let rounded = roundedAveragePrice ts (sub_name sub);
               sent' = sent @ [PostAveragePrice (sub_name sub) rounded]
           in case postAveragePrice P (sub_name sub) rounded of
                Inl catError \<Rightarrow> Some (error_result sub catError, sent')
              | Inr u \<Rightarrow> Some (success_result P sub ts, sent')))"

subsection \<open>The run\<close>

text \<open>\<open>Promise.all\<close> over tasks that never reject: the results in the order of the
  tasks, once every task has settled.\<close>

primrec Promise_all :: "'a option list \<Rightarrow> 'a list option" where
  "Promise_all [] = Some []"
| "Promise_all (p # ps) =
     (case p of
        None \<Rightarrow> None
      | Some r \<Rightarrow> (case Promise_all ps of None \<Rightarrow> None | Some rs \<Rightarrow> Some (r # rs)))"

text \<open>\<open>categories.flatMap((category) => category.childrenCategories || [])\<close>\<close>

definition allSubcategories :: "category list \<Rightarrow> subcategory list" where
  "allSubcategories cats =
     concat (map (\<lambda>c. case childrenCategories c of None \<Rightarrow> [] | Some subs \<Rightarrow> subs) cats)"

text \<open>The state while the run is in flight: \<open>setIsLoading(true); setError(null);
  setResults([])\<close>.\<close>

definition started :: "ui_state \<Rightarrow> ui_state" where
  "started s = s\<lparr>isLoading := True, error := None, results := []\<rparr>"

text \<open>\<open>e instanceof Error ? e.message : "An unexpected error occurred."\<close>\<close>

definition top_level_message :: "js_exn \<Rightarrow> string" where
  "top_level_message e =
     (case e of JsError m \<Rightarrow> m | NonError \<Rightarrow> ''An unexpected error occurred.'')"

text \<open>
  The handler: the state it leaves, and the requests of the tasks it launched (one list
  per task, in the order of the subcategories; tasks run concurrently, so no order is
  given between two tasks' requests). \<open>None\<close>: some task never settles, and the handler
  never reaches \<open>setResults\<close> nor its \<open>finally\<close>.
\<close>

definition handleCalculatePrices ::
  "platform \<Rightarrow> ui_state \<Rightarrow> (ui_state \<times> request list list) option" where
  "handleCalculatePrices P s =
     (case fetchCategories P of
        Inl e \<Rightarrow>
          Some ((started s)\<lparr>error := Some (top_level_message e), isLoading := False\<rparr>, [])
      | Inr None \<Rightarrow>
          Some ((started s)\<lparr>error := Some ''No categories found.'', isLoading := False\<rparr>, [])
      | Inr (Some cats) \<Rightarrow>
          if length cats = 0
          then Some ((started s)\<lparr>error := Some ''No categories found.'', isLoading := False\<rparr>, [])
          else if length (allSubcategories cats) = 0
          then Some ((started s)\<lparr>error := Some ''No subcategories found to process.'',
                                 isLoading := False\<rparr>, [])
          else (case Promise_all (map (calculation P) (allSubcategories cats)) of
                  None \<Rightarrow> None
                | Some settled \<Rightarrow>
                    Some ((started s)\<lparr>results := map fst settled, isLoading := False\<rparr>,
                          map snd settled)))"

section \<open>Notions the statements use\<close>

subsection \<open>Paging\<close>

text \<open>The answer to the request for page \<open>p\<close> of category \<open>c\<close>.\<close>

definition page_response :: "platform \<Rightarrow> jsnum \<Rightarrow> nat \<Rightarrow> search_response fetch" where
  "page_response P c p = search_endpoint P [c] p pageSize"

text \<open>The listings a page contributes: those of an ok response whose body parses
  (\<open>data.teachers || []\<close>); none for any other answer. A page with a non-empty batch is
  a successful non-empty page.\<close>

definition batch :: "search_response fetch \<Rightarrow> teacher list" where
  "batch r =
     (case r of
        Rejects e \<Rightarrow> []
      | Resolves ok body \<Rightarrow>
          if ok then (case body of
                        Inl e \<Rightarrow> []
                      | Inr data \<Rightarrow> (case teachers data of None \<Rightarrow> [] | Some ts \<Rightarrow> ts))
          else [])"

text \<open>The listings of pages \<open>0..k-1\<close>, and the requests for pages \<open>0..k\<close>.\<close>

definition accumulated :: "platform \<Rightarrow> jsnum \<Rightarrow> nat \<Rightarrow> teacher list" where
  "accumulated P c k = concat (map (\<lambda>i. batch (page_response P c i)) [0..<k])"

definition page_requests :: "jsnum \<Rightarrow> nat \<Rightarrow> request list" where
  "page_requests c k = map (\<lambda>i. PostSearch [c] i 10) [0..<Suc k]"

text \<open>A returned batch that is empty: an ok response with a parsed body and no
  listings.\<close>

definition empty_page :: "search_response fetch \<Rightarrow> bool" where
  "empty_page r =
     (case r of
        Rejects e \<Rightarrow> False
      | Resolves ok body \<Rightarrow>
          ok \<and> (case body of
                  Inl e \<Rightarrow> False
                | Inr data \<Rightarrow> (case teachers data of None \<Rightarrow> True | Some ts \<Rightarrow> ts = [])))"

text \<open>A response that is not ok: the branch that logs \<open>Failed to fetch teachers\<close> and
  leaves the loop.\<close>

definition not_ok_page :: "search_response fetch \<Rightarrow> bool" where
  "not_ok_page r = (case r of Rejects e \<Rightarrow> False | Resolves ok body \<Rightarrow> \<not> ok)"

text \<open>A request that throws: \<open>fetch\<close> rejects, or the response is ok and its body does
  not parse.\<close>

definition thrown_by :: "search_response fetch \<Rightarrow> js_exn option" where
  "thrown_by r =
     (case r of
        Rejects e \<Rightarrow> Some e
      | Resolves ok body \<Rightarrow>
          if ok then (case body of Inl e \<Rightarrow> Some e | Inr data \<Rightarrow> None) else None)"

text \<open>How the loop ends at a page that ends it: by throwing what the request threw, or
  by returning the listings accumulated so far.\<close>

definition ending :: "search_response fetch \<Rightarrow> teacher list \<Rightarrow> js_exn + teacher list" where
  "ending r acc = (case thrown_by r of Some e \<Rightarrow> Inl e | None \<Rightarrow> Inr acc)"

subsection \<open>Aggregation, in the words of the specification\<close>

text \<open>
  The price a listing contributes to a subcategory: that of the first category entry
  whose name is the subcategory's, when that price is a number.
\<close>

definition contribution :: "teacher \<Rightarrow> string \<Rightarrow> jsnum option" where
  "contribution t name =
     (case categories t of
        None \<Rightarrow> None
      | Some cats \<Rightarrow>
          (case find (\<lambda>cat. info_name cat = name) cats of
             None \<Rightarrow> None
           | Some cat \<Rightarrow> (case pricePerHour cat of JNumber x \<Rightarrow> Some x | _ \<Rightarrow> None)))"

definition contributions :: "teacher list \<Rightarrow> string \<Rightarrow> jsnum list" where
  "contributions ts name = List.map_filter (\<lambda>t. contribution t name) ts"

text \<open>The sum of the contributing prices, left to right from 0, over their number,
  then to the cent; 0 when nothing contributes.\<close>

definition spec_average :: "jsnum list \<Rightarrow> jsnum" where
  "spec_average ps =
     (let avg = (if 0 < length ps
                 then js_div_by (foldl js_add (Fin 0) ps) (of_nat (length ps))
                 else Fin 0)
      in js_div_by (js_round (js_mul avg (Fin 100))) 100)"

section \<open>Example inputs\<close>

text \<open>A listing with one category entry, priced by a decimal literal.\<close>

definition listing_at :: "string \<Rightarrow> real \<Rightarrow> teacher" where
  "listing_at name q =
     \<lparr>teacher_id = ''t'',
      categories = Some [\<lparr>info_name = name, pricePerHour = JNumber (js_literal q)\<rparr>]\<rparr>"

text \<open>An ok response whose body holds the given listings.\<close>

definition page_of :: "teacher list \<Rightarrow> search_response fetch" where
  "page_of ts = Resolves True (Inr \<lparr>teachers = Some ts, totalResults = Fin 0\<rparr>)"

text \<open>A mocked listing service: the given answers for pages \<open>0, 1, ...\<close> and an empty
  batch for every later page.\<close>

definition served :: "search_response fetch list \<Rightarrow> nat \<Rightarrow> search_response fetch" where
  "served rs p = (if p < length rs then rs ! p else page_of [])"

definition mock :: "category list option fetch \<Rightarrow> (jsnum list \<Rightarrow> nat \<Rightarrow> search_response fetch)
    \<Rightarrow> (string \<Rightarrow> jsnum \<Rightarrow> unit fetch) \<Rightarrow> platform" where
  "mock cats pages publish =
     \<lparr>categories_endpoint = cats,
      search_endpoint = (\<lambda>cs p n. pages cs p),
      average_price_endpoint = publish,
      number_to_string = (\<lambda>x. ''#'')\<rparr>"

definition publish_ok :: "string \<Rightarrow> jsnum \<Rightarrow> unit fetch" where
  "publish_ok name avg = Resolves True (Inr ())"

text \<open>A publish endpoint that answers with a failure status for one subcategory
  name.\<close>

definition publish_ok_but :: "string \<Rightarrow> string \<Rightarrow> jsnum \<Rightarrow> unit fetch" where
  "publish_ok_but bad name avg = Resolves (name \<noteq> bad) (Inr ())"

definition math :: subcategory where
  "math = \<lparr>sub_id = ''s1'', sub_name = ''Math'', sub_code = Fin 7\<rparr>"

text \<open>Listings around the subcategory \<open>Math\<close>: a price of 20; no categories at all; a
  first \<open>Math\<close> entry whose price is a string, before a second one with a number; an
  entry named \<open>math\<close>; a price of 30 behind an entry of another name.\<close>

definition mixed_listings :: "teacher list" where
  "mixed_listings =
     [listing_at ''Math'' 20,
      \<lparr>teacher_id = ''t2'', categories = None\<rparr>,
      \<lparr>teacher_id = ''t3'',
       categories = Some [\<lparr>info_name = ''Math'', pricePerHour = JString ''30''\<rparr>,
                          \<lparr>info_name = ''Math'', pricePerHour = JNumber (Fin 40)\<rparr>]\<rparr>,
      listing_at ''math'' 50,
      \<lparr>teacher_id = ''t5'',
       categories = Some [\<lparr>info_name = ''Physics'', pricePerHour = JNumber (Fin 90)\<rparr>,
                          \<lparr>info_name = ''Math'', pricePerHour = JNumber (Fin 30)\<rparr>]\<rparr>]"

text \<open>A listing whose price for \<open>Math\<close> is the number \<open>-5\<close>.\<close>

definition negative_listing :: teacher where
  "negative_listing =
     \<lparr>teacher_id = ''t1'',
      categories = Some [\<lparr>info_name = ''Math'', pricePerHour = JNumber (Fin (- 5))\<rparr>]\<rparr>"

text \<open>The mocked listing service of the pagination test: batches of 10, 10, 3 and 0
  listings.\<close>

definition sizes_10_10_3_0 :: platform where
  "sizes_10_10_3_0 =
     mock (Rejects NonError)
       (\<lambda>cs. served [page_of (replicate 10 (listing_at ''Math'' 20)),
                     page_of (replicate 10 (listing_at ''Math'' 30)),
                     page_of (replicate 3 (listing_at ''Math'' 40)),
                     page_of []])
       publish_ok"

text \<open>A service that serves \<open>n\<close> pages of one listing each, then empty pages.\<close>

definition long_service :: "nat \<Rightarrow> platform" where
  "long_service n =
     mock (Rejects NonError)
       (\<lambda>cs p. if p < n then page_of [listing_at ''Math'' 20] else page_of [])
       publish_ok"

text \<open>A service whose first response is ok with a body that is not JSON; every later
  page is an empty batch.\<close>

definition unparsable_first_page :: platform where
  "unparsable_first_page =
     mock (Rejects NonError)
       (\<lambda>cs. served [Resolves True (Inl (JsError ''Unexpected token < in JSON at position 0''))])
       publish_ok"

text \<open>A service that serves one listing on page 0; the request for page 1 does not
  complete.\<close>

definition rejects_second_page :: platform where
  "rejects_second_page =
     mock (Rejects NonError)
       (\<lambda>cs. served [page_of [listing_at ''Math'' 20], Rejects (JsError ''Failed to fetch'')])
       publish_ok"

text \<open>A service that serves one listing on page 0 and answers page 1 with a failure
  status.\<close>

definition not_ok_second_page :: platform where
  "not_ok_second_page =
     mock (Rejects NonError)
       (\<lambda>cs. served [page_of [listing_at ''Math'' 20], Resolves False (Inl NonError)])
       publish_ok"

text \<open>A service with one listing for every category, priced 10, that refuses every
  published average.\<close>

definition refuses_publish :: platform where
  "refuses_publish =
     mock (Rejects NonError)
       (\<lambda>cs. served [page_of [listing_at ''Math'' 10]])
       (\<lambda>name avg. Resolves False (Inr ()))"

text \<open>A service whose listings never name the subcategory asked for.\<close>

definition no_match_service :: platform where
  "no_match_service =
     mock (Rejects NonError)
       (\<lambda>cs. served [page_of [listing_at ''Chess'' 15, \<lparr>teacher_id = ''t2'', categories = None\<rparr>]])
       publish_ok"

definition physics :: subcategory where
  "physics = \<lparr>sub_id = ''s2'', sub_name = ''Physics'', sub_code = Fin 8\<rparr>"

definition piano :: subcategory where
  "piano = \<lparr>sub_id = ''s3'', sub_name = ''Piano'', sub_code = Fin 9\<rparr>"

text \<open>A catalog of three categories, one of them without the \<open>childrenCategories\<close>
  field, and three subcategories.\<close>

definition catalog :: "category list" where
  "catalog =
     [\<lparr>cat_id = ''c1'', cat_name = ''Science'', childrenCategories = Some [math, physics]\<rparr>,
      \<lparr>cat_id = ''c2'', cat_name = ''Arts'', childrenCategories = None\<rparr>,
      \<lparr>cat_id = ''c3'', cat_name = ''Music'', childrenCategories = Some [piano]\<rparr>]"

text \<open>A service with that catalog: one listing for \<open>Math\<close>, priced 10; the request for
  the first page of \<open>Physics\<close> does not complete; no listing for \<open>Piano\<close>, whose
  published average is refused.\<close>

definition school :: platform where
  "school =
     mock (Resolves True (Inr (Some catalog)))
       (\<lambda>cs. if cs = [Fin 7] then served [page_of [listing_at ''Math'' 10]]
             else if cs = [Fin 8] then served [Rejects (JsError ''Failed to fetch'')]
             else served [])
       (publish_ok_but ''Piano'')"

text \<open>A service with that catalog that lists, for every code, one teacher of \<open>Math\<close>
  priced 10, and refuses the published average of \<open>Physics\<close> only.\<close>

definition school_refusing_physics :: platform where
  "school_refusing_physics =
     mock (Resolves True (Inr (Some catalog)))
       (\<lambda>cs. served [page_of [listing_at ''Math'' 10]])
       (publish_ok_but ''Physics'')"

text \<open>A service whose catalog request is answered with a failure status.\<close>

definition catalog_down :: platform where
  "catalog_down =
     mock (Resolves False (Inl NonError))
       (\<lambda>cs. served [page_of [listing_at ''Math'' 10]])
       publish_ok"

definition idle :: ui_state where
  "idle = \<lparr>isLoading = False, results = [], error = None\<rparr>"

section \<open>Auxiliary facts\<close>

subsection \<open>Numbers\<close>

lemmas rnd64_eval =
  rnd64_def rnd64_mag_def log2floor.simps pow2_def round_half_even_def Let_def

lemma js_literal_100: "js_literal 100 = Fin 100"
  by (simp add: js_literal_def rnd64_eval)

lemma js_literal_tenth: "js_literal (1 / 10) = Fin (3602879701896397 / 2 ^ 55)"
  by (simp add: js_literal_def rnd64_eval)

lemma cent_tie_follows_the_double:
  "js_round (js_mul (js_literal (1005 / 1000)) (js_literal 100)) = Fin 100"
  by (simp add: js_literal_def rnd64_eval)

lemma pow2_pos: "0 < pow2 e"
  by (simp add: pow2_def)

text \<open>The rounding is what the standard asks of a binary64 operation: the exponent
  brackets the operand, and the result is within half a unit in the last place of it
  (a tie goes to the even significand by \<open>round_half_even\<close>).\<close>

lemma pow2_Suc: "pow2 (e + 1) = 2 * pow2 e"
proof -
  consider "0 \<le> e" | "e = - 1" | "e < - 1" by linarith
  then show ?thesis
  proof cases
    case 1
    then show ?thesis by (simp add: pow2_def nat_add_distrib)
  next
    case 2
    then show ?thesis by (simp add: pow2_def)
  next
    case 3
    then have "nat (- e) = Suc (nat (- e - 1))" by simp
    with 3 show ?thesis by (simp add: pow2_def)
  qed
qed

lemma log2floor_bounds:
  "0 < a \<Longrightarrow> pow2 (log2floor a) \<le> a \<and> a < pow2 (log2floor a + 1)"
proof (induction a rule: log2floor.induct)
  case (1 a)
  consider "2 \<le> a" | "a < 1" | "1 \<le> a \<and> a < 2" by linarith
  then show ?case
  proof cases
    case 1
    with "1.prems" have l: "log2floor a = log2floor (a / 2) + 1"
      by (subst log2floor.simps) simp
    from 1 "1.prems" "1.IH"(1) have "pow2 (log2floor (a / 2)) \<le> a / 2
        \<and> a / 2 < pow2 (log2floor (a / 2) + 1)" by simp
    then show ?thesis unfolding l pow2_Suc by simp
  next
    case 2
    with "1.prems" have l: "log2floor a = log2floor (a * 2) - 1"
      by (subst log2floor.simps) simp
    from 2 "1.prems" "1.IH"(2) have "pow2 (log2floor (a * 2)) \<le> a * 2
        \<and> a * 2 < pow2 (log2floor (a * 2) + 1)" by simp
    moreover have "pow2 (log2floor (a * 2)) = 2 * pow2 (log2floor (a * 2) - 1)"
      using pow2_Suc [of "log2floor (a * 2) - 1"] by simp
    ultimately show ?thesis unfolding l pow2_Suc by simp
  next
    case 3
    then have "log2floor a = 0" by (subst log2floor.simps) simp
    with 3 show ?thesis by (simp add: pow2_def)
  qed
qed

lemma round_half_even_nearest: "\<bar>of_int (round_half_even x) - x\<bar> \<le> 1 / 2"
proof -
  have "of_int \<lfloor>x\<rfloor> \<le> x" "x < of_int \<lfloor>x\<rfloor> + 1" by linarith+
  then show ?thesis by (auto simp: round_half_even_def Let_def abs_le_iff)
qed

lemma rnd64_mag_nearest:
  "\<bar>rnd64_mag a - a\<bar> \<le> pow2 (max (log2floor a) (- 1022) - 52) / 2"
proof -
  define u where "u = pow2 (max (log2floor a) (- 1022) - 52)"
  have u: "0 < u" by (simp add: u_def pow2_def)
  have "rnd64_mag a - a = (of_int (round_half_even (a / u)) - a / u) * u"
    using u by (simp add: rnd64_mag_def Let_def u_def [symmetric] left_diff_distrib)
  then have "\<bar>rnd64_mag a - a\<bar> = \<bar>of_int (round_half_even (a / u)) - a / u\<bar> * u"
    using u by (simp add: abs_mult)
  also have "\<dots> \<le> 1 / 2 * u"
    using u round_half_even_nearest [of "a / u"] by (intro mult_right_mono) simp_all
  finally show ?thesis by (simp add: u_def)
qed

lemma round_half_even_nonneg: "0 \<le> x \<Longrightarrow> 0 \<le> round_half_even x"
  by (auto simp: round_half_even_def Let_def)

lemma rnd64_mag_nonneg: "0 \<le> a \<Longrightarrow> 0 \<le> rnd64_mag a"
  unfolding rnd64_mag_def Let_def
  by (intro mult_nonneg_nonneg) (simp_all add: round_half_even_nonneg pow2_pos less_imp_le)

lemma rnd64_nonneg: "0 \<le> q \<Longrightarrow> \<not> js_negative (rnd64 q)"
  using rnd64_mag_nonneg [of "\<bar>q\<bar>"] by (simp add: rnd64_def Let_def)

lemma js_add_nonneg:
  "\<not> js_negative a \<Longrightarrow> \<not> js_negative b \<Longrightarrow> \<not> js_negative (js_add a b)"
  by (cases a; cases b) (simp_all add: rnd64_nonneg)

lemma js_div_by_nonneg: "0 < d \<Longrightarrow> \<not> js_negative a \<Longrightarrow> \<not> js_negative (js_div_by a d)"
  by (cases a) (simp_all add: rnd64_nonneg)

lemma js_mul_100_nonneg: "\<not> js_negative a \<Longrightarrow> \<not> js_negative (js_mul a (Fin 100))"
  by (cases a) (simp_all add: rnd64_nonneg)

lemma js_round_nonneg: "\<not> js_negative a \<Longrightarrow> \<not> js_negative (js_round a)"
  by (cases a) simp_all

lemma foldl_js_add_nonneg:
  "\<not> js_negative a \<Longrightarrow> \<forall>x\<in>set ps. \<not> js_negative x \<Longrightarrow> \<not> js_negative (foldl js_add a ps)"
  by (induction ps arbitrary: a) (simp_all add: js_add_nonneg)

lemma spec_average_nonneg:
  assumes "\<forall>x\<in>set ps. \<not> js_negative x"
  shows "\<not> js_negative (spec_average ps)"
proof -
  have "\<not> js_negative (foldl js_add (Fin 0) ps)"
    using assms by (intro foldl_js_add_nonneg) simp_all
  then show ?thesis
    by (simp add: spec_average_def Let_def js_div_by_nonneg js_round_nonneg js_mul_100_nonneg)
qed

lemma spec_average_Nil: "spec_average [] = Fin 0"
  by (simp add: spec_average_def rnd64_def)

subsection \<open>The loop over the listings\<close>

lemma forEach_body_contribution:
  "forEach_body name acc t =
     (case contribution t name of None \<Rightarrow> acc | Some x \<Rightarrow> (js_add (fst acc) x, snd acc + 1))"
  by (simp add: forEach_body_def relevantCategory_def contribution_def
      split: option.splits jsval.splits)

lemma foldl_forEach_body:
  "foldl (forEach_body name) acc ts =
     (foldl js_add (fst acc) (contributions ts name), snd acc + length (contributions ts name))"
proof (induction ts arbitrary: acc)
  case Nil
  show ?case by (simp add: contributions_def map_filter_simps)
next
  case (Cons t ts)
  have step: "foldl (forEach_body name) acc (t # ts) =
      (foldl js_add (fst (forEach_body name acc t)) (contributions ts name),
       snd (forEach_body name acc t) + length (contributions ts name))"
    by (simp only: foldl_Cons Cons.IH)
  show ?case
    unfolding step forEach_body_contribution [of name acc t]
    by (cases "contribution t name") (simp_all add: contributions_def map_filter_simps)
qed

lemma scan_teachers_contributions:
  "scan_teachers ts name =
     (foldl js_add (Fin 0) (contributions ts name), length (contributions ts name))"
  by (simp add: scan_teachers_def foldl_forEach_body)

lemma roundedAveragePrice_spec:
  "roundedAveragePrice ts name = spec_average (contributions ts name)"
  by (simp add: roundedAveragePrice_def round_cents_def average_of_def spec_average_def
      scan_teachers_contributions js_literal_100 Let_def)

subsection \<open>The paging loop\<close>

lemma batch_empty_iff:
  "batch r = [] \<longleftrightarrow> empty_page r \<or> not_ok_page r \<or> thrown_by r \<noteq> None"
  by (auto simp: batch_def empty_page_def not_ok_page_def thrown_by_def
      split: fetch.splits sum.splits option.splits)

lemma ending_cases:
  "empty_page r \<Longrightarrow> ending r acc = Inr acc"
  "not_ok_page r \<Longrightarrow> ending r acc = Inr acc"
  "thrown_by r = Some e \<Longrightarrow> ending r acc = Inl e"
  by (auto simp: ending_def empty_page_def not_ok_page_def thrown_by_def
      split: fetch.splits sum.splits option.splits if_splits)

lemma batch_nonempty:
  assumes "batch r \<noteq> []"
  obtains data where "r = Resolves True (Inr data)" and "teachers data = Some (batch r)"
  using assms
  by (auto simp: batch_def split: fetch.splits sum.splits option.splits if_splits)

lemma fetch_pages_stop:
  assumes "batch (page_response P c p) = []"
  shows "fetch_pages P c p acc sent =
           Some (ending (page_response P c p) acc, sent @ [PostSearch [c] p 10])"
  using assms
  by (subst fetch_pages.simps)
     (simp add: batch_def page_response_def ending_def thrown_by_def pageSize_def Let_def
        split: fetch.splits sum.splits option.splits if_splits)

lemma fetch_pages_continue:
  assumes "batch (page_response P c p) \<noteq> []"
  shows "fetch_pages P c p acc sent =
           fetch_pages P c (Suc p) (acc @ batch (page_response P c p))
             (sent @ [PostSearch [c] p 10])"
proof -
  from assms obtain data where r: "page_response P c p = Resolves True (Inr data)"
    and t: "teachers data = Some (batch (page_response P c p))"
    by (rule batch_nonempty)
  show ?thesis
    by (subst fetch_pages.simps)
       (simp add: r [unfolded page_response_def pageSize_def] t assms Let_def pageSize_def)
qed

lemma fetch_pages_run:
  assumes "\<forall>i. p \<le> i \<and> i < p + n \<longrightarrow> batch (page_response P c i) \<noteq> []"
    and "batch (page_response P c (p + n)) = []"
  shows "fetch_pages P c p acc sent =
           Some (ending (page_response P c (p + n))
                   (acc @ concat (map (\<lambda>i. batch (page_response P c i)) [p..<p + n])),
                 sent @ map (\<lambda>i. PostSearch [c] i 10) [p..<Suc (p + n)])"
  using assms
proof (induction n arbitrary: p acc sent)
  case 0
  then show ?case by (simp add: fetch_pages_stop)
next
  case (Suc n)
  have here: "batch (page_response P c p) \<noteq> []" using Suc.prems(1) by simp
  have rest: "\<forall>i. Suc p \<le> i \<and> i < Suc p + n \<longrightarrow> batch (page_response P c i) \<noteq> []"
    using Suc.prems(1) by simp
  have last: "batch (page_response P c (Suc p + n)) = []" using Suc.prems(2) by simp
  have l1: "[p..<p + Suc n] = p # [Suc p..<Suc p + n]" by (simp add: upt_conv_Cons)
  have l2: "[p..<Suc (p + Suc n)] = p # [Suc p..<Suc (Suc p + n)]" by (simp add: upt_conv_Cons)
  show ?case
    unfolding fetch_pages_continue [OF here] Suc.IH [OF rest last] l1 l2 by simp
qed

lemma fetchAll_first_stop:
  assumes "\<forall>i<k. batch (page_response P c i) \<noteq> []"
    and "batch (page_response P c k) = []"
  shows "fetchAllTeachersForCategory P c =
           Some (ending (page_response P c k) (accumulated P c k), page_requests c k)"
  using fetch_pages_run [of 0 k P c "[]" "[]"] assms
  by (simp add: fetchAllTeachersForCategory_def accumulated_def page_requests_def)

lemma first_stop_exists:
  assumes "batch (page_response P c k) = []"
  obtains j where "j \<le> k" and "\<forall>i<j. batch (page_response P c i) \<noteq> []"
    and "batch (page_response P c j) = []"
proof -
  define j where "j = (LEAST i. batch (page_response P c i) = [])"
  have "batch (page_response P c j) = []"
    unfolding j_def using assms by (rule LeastI)
  moreover have "j \<le> k" unfolding j_def using assms by (rule Least_le)
  moreover have "\<forall>i<j. batch (page_response P c i) \<noteq> []"
    unfolding j_def using not_less_Least by blast
  ultimately show ?thesis using that by blast
qed

lemma fetchAll_settles:
  assumes "batch (page_response P c k) = []"
  shows "\<exists>r sent. fetchAllTeachersForCategory P c = Some (r, sent)"
proof -
  from assms obtain j where "\<forall>i<j. batch (page_response P c i) \<noteq> []"
    and "batch (page_response P c j) = []"
    by (rule first_stop_exists)
  then show ?thesis using fetchAll_first_stop by blast
qed

lemma fetch_pages_never:
  assumes never: "\<forall>i. batch (page_response P c i) \<noteq> []"
  shows "fetch_pages P c p acc sent = None"
proof (rule ccontr)
  assume "fetch_pages P c p acc sent \<noteq> None"
  then obtain y where y: "fetch_pages P c p acc sent = Some y" by auto
  have "fst (fst (fst (fst ((((P, c), p), acc), sent)))) = P
          \<and> snd (fst (fst (fst ((((P, c), p), acc), sent)))) = c \<longrightarrow> False"
  proof (rule fetch_pages.raw_induct
      [where Pa = "\<lambda>x y. fst (fst (fst (fst x))) = P \<and> snd (fst (fst (fst x))) = c \<longrightarrow> False",
        OF _ y], goal_cases)
    case (1 f P' c' p' acc' sent' y')
    show ?case
    proof (intro impI)
      assume "fst (fst (fst (fst ((((P', c'), p'), acc'), sent')))) = P
          \<and> snd (fst (fst (fst ((((P', c'), p'), acc'), sent')))) = c"
      then have eq: "P' = P" "c' = c" by simp_all
      from never obtain data where r: "page_response P c p' = Resolves True (Inr data)"
        and t: "teachers data = Some (batch (page_response P c p'))"
        by (metis batch_nonempty)
      have ne: "batch (page_response P c p') \<noteq> []" using never by simp
      from 1(2) have "f P c (p' + 1) (acc' @ batch (page_response P c p'))
                        (sent' @ [PostSearch [c] p' 10]) = Some y'"
        by (simp add: eq r [unfolded page_response_def pageSize_def] t ne Let_def pageSize_def)
      from 1(1) [OF this] show False by simp
    qed
  qed
  then show False by simp
qed

subsection \<open>One task\<close>

lemma calculation_paging_throws:
  "fetchAllTeachersForCategory P (sub_code sub) = Some (Inl e, sent)
     \<Longrightarrow> calculation P sub = Some (error_result sub e, sent)"
  by (simp add: calculation_def)

lemma calculation_publish_fails:
  "fetchAllTeachersForCategory P (sub_code sub) = Some (Inr ts, sent)
     \<Longrightarrow> postAveragePrice P (sub_name sub) (roundedAveragePrice ts (sub_name sub)) = Inl e
     \<Longrightarrow> calculation P sub =
           Some (error_result sub e,
                 sent @ [PostAveragePrice (sub_name sub) (roundedAveragePrice ts (sub_name sub))])"
  by (simp add: calculation_def Let_def)

lemma calculation_publish_succeeds:
  "fetchAllTeachersForCategory P (sub_code sub) = Some (Inr ts, sent)
     \<Longrightarrow> postAveragePrice P (sub_name sub) (roundedAveragePrice ts (sub_name sub)) = Inr u
     \<Longrightarrow> calculation P sub =
           Some (success_result P sub ts,
                 sent @ [PostAveragePrice (sub_name sub) (roundedAveragePrice ts (sub_name sub))])"
  by (simp add: calculation_def Let_def)

lemma calculation_cases:
  assumes "calculation P sub = Some (r, sent)"
  shows "(\<exists>e. r = error_result sub e) \<or> (\<exists>ts. r = success_result P sub ts)"
  using assms
  by (auto simp: calculation_def Let_def split: option.splits sum.splits prod.splits)

lemma calculation_categoryName:
  "calculation P sub = Some (r, sent) \<Longrightarrow> categoryName r = sub_name sub"
  by (drule calculation_cases) (auto simp: error_result_def success_result_def)

lemma calculation_settles:
  assumes "fetchAllTeachersForCategory P (sub_code sub) = Some (r, sent)"
  shows "\<exists>res sent'. calculation P sub = Some (res, sent')"
  using assms
  by (auto simp: calculation_def Let_def split: option.splits sum.splits prod.splits)

subsection \<open>All tasks\<close>

lemma Promise_all_map:
  "\<forall>x\<in>set xs. f x = Some (g x) \<Longrightarrow> Promise_all (map f xs) = Some (map g xs)"
  by (induction xs) simp_all

lemma count_one_error:
  assumes "i < length rs" and "status (rs ! i) = StatusError"
    and "\<forall>j<length rs. j \<noteq> i \<longrightarrow> status (rs ! j) = StatusSuccess"
  shows "length (filter (\<lambda>r. status r = StatusError) rs) = 1"
    and "length (filter (\<lambda>r. status r = StatusSuccess) rs) = length rs - 1"
proof -
  have e: "{j. j < length rs \<and> status (rs ! j) = StatusError} = {i}"
    using assms by auto
  have s: "{j. j < length rs \<and> status (rs ! j) = StatusSuccess} = {..<length rs} - {i}"
    using assms by auto
  show "length (filter (\<lambda>r. status r = StatusError) rs) = 1"
    by (simp add: length_filter_conv_card e)
  show "length (filter (\<lambda>r. status r = StatusSuccess) rs) = length rs - 1"
    using assms(1) by (simp add: length_filter_conv_card s)
qed

section \<open>The aggregation\<close>

lemma contributions_listing_at:
  "contribution (listing_at name q) name = Some (js_literal q)"
  by (simp add: contribution_def listing_at_def)

text \<open>
  C2, as amended. The loop adds a listing's price to the running sum and increments the
  contributing count exactly when the first category entry whose name equals the
  subcategory's (string equality) has a price of type number, of either sign: the sum and
  the count are those of the contributing prices. The computed average is not negative
  when no contributing price is negative.
\<close>

theorem aggregator_counts_number_prices:
  "forEach_body name acc t =
     (case contribution t name of
        None \<Rightarrow> acc
      | Some x \<Rightarrow> (js_add (fst acc) x, snd acc + 1))
   \<and> scan_teachers ts name =
       (foldl js_add (Fin 0) (contributions ts name), length (contributions ts name))
   \<and> ((\<forall>x\<in>set (contributions ts name). \<not> js_negative x)
        \<longrightarrow> \<not> js_negative (roundedAveragePrice ts name))"
  by (simp add: forEach_body_contribution scan_teachers_contributions
      roundedAveragePrice_spec spec_average_nonneg)

lemma contributions_mixed_listings:
  "contributions mixed_listings ''Math'' = [Fin 20, Fin 30]"
  by (simp add: contributions_def mixed_listings_def map_filter_simps contribution_def
      listing_at_def js_literal_def rnd64_eval)

theorem aggregator_counts_number_prices_witness:
  "scan_teachers mixed_listings ''Math'' = (Fin 50, 2)
   \<and> \<not> js_negative (roundedAveragePrice mixed_listings ''Math'')"
  using aggregator_counts_number_prices [of "''Math''" "(Fin 0, 0)" negative_listing mixed_listings]
  by (simp add: contributions_mixed_listings rnd64_eval)

text \<open>C2 as stated fails: a price of \<open>-5\<close> is added and counted, and the average is
  \<open>-5\<close>.\<close>

theorem negative_price_contributes:
  "scan_teachers [negative_listing] ''Math'' = (Fin (- 5), 1)
   \<and> roundedAveragePrice [negative_listing] ''Math'' = Fin (- 5)
   \<and> js_negative (roundedAveragePrice [negative_listing] ''Math'')"
  by (simp add: roundedAveragePrice_def scan_teachers_def forEach_body_def relevantCategory_def
      negative_listing_def average_of_def round_cents_def js_literal_def rnd64_eval)

text \<open>
  C9. The reported average is the sum of the contributing prices divided by their number
  (0 when there is none), multiplied by 100, rounded to the nearest integer and divided by
  100, each step in double arithmetic. Prices 10.00, 10.00 and 10.01 give 10.00 over 3
  contributions.
\<close>

theorem average_rounded_to_cents:
  "roundedAveragePrice ts name = spec_average (contributions ts name)
   \<and> snd (scan_teachers ts name) = length (contributions ts name)
   \<and> contributions [listing_at name 10, listing_at name 10, listing_at name (1001 / 100)] name
       = [js_literal 10, js_literal 10, js_literal (1001 / 100)]
   \<and> roundedAveragePrice
         [listing_at name 10, listing_at name 10, listing_at name (1001 / 100)] name
       = Fin 10"
proof -
  have c: "contributions [listing_at name 10, listing_at name 10, listing_at name (1001 / 100)] name
       = [js_literal 10, js_literal 10, js_literal (1001 / 100)]"
    by (simp add: contributions_def map_filter_simps contributions_listing_at)
  have l: "js_literal 10 = Fin 10" "js_literal (1001 / 100) = Fin (5635129033747333 / 562949953421312)"
    by (simp_all add: js_literal_def rnd64_eval)
  have s: "foldl js_add (Fin 0) [Fin 10, Fin 10, Fin (5635129033747333 / 562949953421312)]
             = Fin (4223532025543393 / 140737488355328)"
    by (simp add: rnd64_eval)
  have a: "spec_average [Fin 10, Fin 10, Fin (5635129033747333 / 562949953421312)] = Fin 10"
    unfolding spec_average_def s by (simp add: rnd64_eval)
  show ?thesis
    by (simp add: roundedAveragePrice_spec scan_teachers_contributions c) (simp add: l a)
qed

theorem average_rounded_to_cents_witness:
  "roundedAveragePrice mixed_listings ''Math'' = Fin 25
   \<and> snd (scan_teachers mixed_listings ''Math'') = 2"
  using average_rounded_to_cents [of mixed_listings "''Math''"]
  by (simp add: contributions_mixed_listings spec_average_def rnd64_eval)

section \<open>The pager\<close>

lemma page_response_mock:
  "page_response (mock cats pages publish) c p = pages [c] p"
  by (simp add: page_response_def mock_def)

lemma batch_page_of: "batch (page_of ts) = ts"
  by (simp add: batch_def page_of_def)

lemma empty_page_page_of: "empty_page (page_of ts) \<longleftrightarrow> ts = []"
  by (simp add: empty_page_def page_of_def)

lemma thrown_by_page_of: "thrown_by (page_of ts) = None"
  by (simp add: thrown_by_def page_of_def)

lemma length_page_requests: "length (page_requests c k) = Suc k"
  by (simp add: page_requests_def)

lemma upt_0_2: "[0..<2] = [0, 1::nat]"
  by (simp add: upt_rec)

lemma upt_0_3: "[0..<3] = [0, 1, 2::nat]"
  by (simp add: upt_rec)

lemma upt_0_4: "[0..<4] = [0, 1, 2, 3::nat]"
  by (simp add: upt_rec)

lemma all_less_3: "(\<forall>i<3. Q (i::nat)) \<longleftrightarrow> Q 0 \<and> Q 1 \<and> Q 2"
  by (simp add: numeral_3_eq_3 less_Suc_eq) (auto simp: numeral_2_eq_2)

text \<open>
  C3. The pager requests pages of size 10 from page index 0, one index after the other.
  When pages \<open>0..k-1\<close> return non-empty batches and page \<open>k\<close> returns an empty batch, it
  returns the batches of pages \<open>0..k-1\<close>, appended in order, after exactly the requests
  for pages \<open>0..k\<close>. For batches of sizes 10, 10, 3 and 0 these are 23 listings after 4
  requests.
\<close>

theorem pager_stops_at_first_empty_batch:
  "((\<forall>i<k. batch (page_response P c i) \<noteq> []) \<and> empty_page (page_response P c k)
      \<longrightarrow> fetchAllTeachersForCategory P c
            = Some (Inr (concat (map (\<lambda>i. batch (page_response P c i)) [0..<k])),
                    map (\<lambda>i. PostSearch [c] i 10) [0..<Suc k]))
   \<and> (length (batch (page_response P c 0)) = 10 \<and> length (batch (page_response P c 1)) = 10
        \<and> length (batch (page_response P c 2)) = 3 \<and> empty_page (page_response P c 3)
      \<longrightarrow> (\<exists>ts sent. fetchAllTeachersForCategory P c = Some (Inr ts, sent)
             \<and> length ts = 23 \<and> length sent = 4))"
proof (intro conjI impI)
  assume a: "(\<forall>i<k. batch (page_response P c i) \<noteq> []) \<and> empty_page (page_response P c k)"
  then have "batch (page_response P c k) = []" by (simp add: batch_empty_iff)
  with a show "fetchAllTeachersForCategory P c
            = Some (Inr (concat (map (\<lambda>i. batch (page_response P c i)) [0..<k])),
                    map (\<lambda>i. PostSearch [c] i 10) [0..<Suc k])"
    using fetchAll_first_stop [of k P c]
    by (simp add: ending_cases accumulated_def page_requests_def)
next
  assume a: "length (batch (page_response P c 0)) = 10 \<and> length (batch (page_response P c 1)) = 10
        \<and> length (batch (page_response P c 2)) = 3 \<and> empty_page (page_response P c 3)"
  have ne: "\<forall>i<3. batch (page_response P c i) \<noteq> []"
    unfolding all_less_3 using a by auto
  have e: "batch (page_response P c 3) = []" using a by (simp add: batch_empty_iff)
  have r: "fetchAllTeachersForCategory P c = Some (Inr (accumulated P c 3), page_requests c 3)"
    using fetchAll_first_stop [OF ne e] a by (simp add: ending_cases)
  have "length (accumulated P c 3) = 23"
    using a by (simp add: accumulated_def upt_0_3)
  with r show "\<exists>ts sent. fetchAllTeachersForCategory P c = Some (Inr ts, sent)
             \<and> length ts = 23 \<and> length sent = 4"
    by (simp add: length_page_requests)
qed

theorem pager_stops_at_first_empty_batch_witness:
  "\<exists>ts. fetchAllTeachersForCategory sizes_10_10_3_0 (Fin 7)
          = Some (Inr ts, [PostSearch [Fin 7] 0 10, PostSearch [Fin 7] 1 10,
                           PostSearch [Fin 7] 2 10, PostSearch [Fin 7] 3 10])
        \<and> length ts = 23"
proof -
  have b: "\<forall>i<3. batch (page_response sizes_10_10_3_0 (Fin 7) i) \<noteq> []"
    unfolding all_less_3
    by (simp add: sizes_10_10_3_0_def page_response_mock served_def batch_page_of)
  have e: "empty_page (page_response sizes_10_10_3_0 (Fin 7) 3)"
    by (simp add: sizes_10_10_3_0_def page_response_mock served_def empty_page_page_of)
  from pager_stops_at_first_empty_batch [of 3 sizes_10_10_3_0 "Fin 7", THEN conjunct1, THEN mp,
      OF conjI [OF b e]]
  show ?thesis
    by (simp add: upt_0_3 upt_0_4 sizes_10_10_3_0_def page_response_mock served_def batch_page_of)
qed

lemma fetchAll_mock_second_page:
  assumes "P = mock cats (\<lambda>cs. served [page_of [t], r]) publish" and "batch r = []"
  shows "fetchAllTeachersForCategory P c
           = Some (ending r [t], [PostSearch [c] 0 10, PostSearch [c] 1 10])"
proof -
  have b: "\<forall>i<1. batch (page_response P c i) \<noteq> []"
    by (simp add: assms(1) page_response_mock served_def batch_page_of)
  have e: "batch (page_response P c 1) = []"
    by (simp add: assms page_response_mock served_def)
  show ?thesis
    using fetchAll_first_stop [OF b e]
    by (simp add: accumulated_def page_requests_def upt_0_2 assms(1) page_response_mock
        served_def batch_page_of)
qed

lemma fetchAll_mock_one_page:
  assumes "P = mock cats (\<lambda>cs. served [page_of (t # ts)]) publish"
  shows "fetchAllTeachersForCategory P c
           = Some (Inr (t # ts), [PostSearch [c] 0 10, PostSearch [c] 1 10])"
proof -
  have b: "\<forall>i<1. batch (page_response P c i) \<noteq> []"
    by (simp add: assms(1) page_response_mock served_def batch_page_of)
  have e: "batch (page_response P c 1) = []"
    by (simp add: assms page_response_mock served_def batch_page_of)
  show ?thesis
    using fetchAll_first_stop [OF b e]
    by (simp add: accumulated_def page_requests_def upt_0_2 assms(1) page_response_mock
        served_def batch_page_of ending_def thrown_by_page_of)
qed

text \<open>
  C4, as amended. When some page at a finite index is an empty batch, a response that is
  not ok, or a request that throws, the pager terminates at the first such page \<open>j\<close>,
  after the requests for pages \<open>0..j\<close>: it returns the listings of pages \<open>0..j-1\<close> when
  page \<open>j\<close> is an empty batch or a response that is not ok, and throws what the request
  threw otherwise. Nothing else bounds the number of requests: a service with \<open>n\<close>
  non-empty pages takes \<open>n + 1\<close> requests, and a service whose every page is a non-empty
  batch is paged forever.
\<close>

theorem pager_terminates_at_first_ending_page:
  "(empty_page (page_response P c k) \<or> not_ok_page (page_response P c k)
      \<or> thrown_by (page_response P c k) \<noteq> None
    \<longrightarrow> (\<exists>j\<le>k. (\<forall>i<j. batch (page_response P c i) \<noteq> [])
            \<and> batch (page_response P c j) = []
            \<and> fetchAllTeachersForCategory P c
                = Some (case thrown_by (page_response P c j) of
                          None \<Rightarrow> Inr (concat (map (\<lambda>i. batch (page_response P c i)) [0..<j]))
                        | Some e \<Rightarrow> Inl e,
                        map (\<lambda>i. PostSearch [c] i 10) [0..<Suc j])))
   \<and> fetchAllTeachersForCategory (long_service n) c
       = Some (Inr (replicate n (listing_at ''Math'' 20)), map (\<lambda>i. PostSearch [c] i 10) [0..<Suc n])
   \<and> ((\<forall>i. batch (page_response P c i) \<noteq> []) \<longrightarrow> fetchAllTeachersForCategory P c = None)"
proof (intro conjI impI)
  assume "empty_page (page_response P c k) \<or> not_ok_page (page_response P c k)
      \<or> thrown_by (page_response P c k) \<noteq> None"
  then have "batch (page_response P c k) = []" by (simp add: batch_empty_iff)
  then obtain j where j: "j \<le> k" "\<forall>i<j. batch (page_response P c i) \<noteq> []"
    "batch (page_response P c j) = []"
    by (rule first_stop_exists)
  have "fetchAllTeachersForCategory P c
          = Some (case thrown_by (page_response P c j) of
                    None \<Rightarrow> Inr (concat (map (\<lambda>i. batch (page_response P c i)) [0..<j]))
                  | Some e \<Rightarrow> Inl e,
                  map (\<lambda>i. PostSearch [c] i 10) [0..<Suc j])"
    unfolding fetchAll_first_stop [OF j(2) j(3)]
    by (simp add: ending_def accumulated_def page_requests_def split: option.splits)
  with j show "\<exists>j\<le>k. (\<forall>i<j. batch (page_response P c i) \<noteq> [])
            \<and> batch (page_response P c j) = []
            \<and> fetchAllTeachersForCategory P c
                = Some (case thrown_by (page_response P c j) of
                          None \<Rightarrow> Inr (concat (map (\<lambda>i. batch (page_response P c i)) [0..<j]))
                        | Some e \<Rightarrow> Inl e,
                        map (\<lambda>i. PostSearch [c] i 10) [0..<Suc j])"
    by blast
next
  have b: "\<forall>i<n. batch (page_response (long_service n) c i) \<noteq> []"
    by (simp add: long_service_def page_response_mock batch_page_of)
  have e: "batch (page_response (long_service n) c n) = []"
    by (simp add: long_service_def page_response_mock batch_page_of)
  have t: "thrown_by (page_response (long_service n) c n) = None"
    by (simp add: long_service_def page_response_mock thrown_by_page_of)
  have "concat (map (\<lambda>i. batch (page_response (long_service n) c i)) [0..<n])
          = concat (map (\<lambda>i. [listing_at ''Math'' 20]) [0..<n])"
    by (intro arg_cong [where f = concat] map_cong)
       (simp_all add: long_service_def page_response_mock batch_page_of)
  also have "\<dots> = replicate n (listing_at ''Math'' 20)"
    by (induction n) (simp_all add: replicate_append_same)
  finally have a: "accumulated (long_service n) c n = replicate n (listing_at ''Math'' 20)"
    by (simp add: accumulated_def)
  show "fetchAllTeachersForCategory (long_service n) c
       = Some (Inr (replicate n (listing_at ''Math'' 20)), map (\<lambda>i. PostSearch [c] i 10) [0..<Suc n])"
    unfolding fetchAll_first_stop [OF b e]
    by (simp add: ending_def t a page_requests_def)
next
  assume "\<forall>i. batch (page_response P c i) \<noteq> []"
  then show "fetchAllTeachersForCategory P c = None"
    by (simp add: fetchAllTeachersForCategory_def fetch_pages_never)
qed

theorem pager_terminates_at_first_ending_page_witness:
  "fetchAllTeachersForCategory not_ok_second_page (Fin 7)
     = Some (Inr [listing_at ''Math'' 20], [PostSearch [Fin 7] 0 10, PostSearch [Fin 7] 1 10])
   \<and> (\<exists>ts sent. fetchAllTeachersForCategory (long_service 1000) (Fin 7) = Some (Inr ts, sent)
         \<and> length sent = 1001)"
proof -
  let ?P = not_ok_second_page
  have p0: "batch (page_response ?P (Fin 7) 0) = [listing_at ''Math'' 20]"
    by (simp add: not_ok_second_page_def page_response_mock served_def batch_page_of)
  have p1: "page_response ?P (Fin 7) 1 = Resolves False (Inl NonError)"
    by (simp add: not_ok_second_page_def page_response_mock served_def)
  have e5: "empty_page (page_response ?P (Fin 7) 5)"
    by (simp add: not_ok_second_page_def page_response_mock served_def empty_page_page_of)
  from pager_terminates_at_first_ending_page [of ?P "Fin 7" 5 1000, THEN conjunct1] e5
  obtain j where j: "\<forall>i<j. batch (page_response ?P (Fin 7) i) \<noteq> []"
    "batch (page_response ?P (Fin 7) j) = []"
    "fetchAllTeachersForCategory ?P (Fin 7)
       = Some (case thrown_by (page_response ?P (Fin 7) j) of
                 None \<Rightarrow> Inr (concat (map (\<lambda>i. batch (page_response ?P (Fin 7) i)) [0..<j]))
               | Some e \<Rightarrow> Inl e,
               map (\<lambda>i. PostSearch [Fin 7] i 10) [0..<Suc j])"
    by blast
  have "j \<noteq> 0"
  proof
    assume "j = 0"
    with j(2) p0 show False by simp
  qed
  moreover have "\<not> 1 < j" using j(1) p1 by (auto simp: batch_def)
  ultimately have j1: "j = 1" by simp
  have t1: "thrown_by (page_response ?P (Fin 7) 1) = None"
    unfolding p1 by (simp add: thrown_by_def)
  have c1: "concat (map (\<lambda>i. batch (page_response ?P (Fin 7) i)) [0..<1])
              = [listing_at ''Math'' 20]"
    by (simp add: p0)
  have r1: "map (\<lambda>i. PostSearch [Fin 7] i 10) [0..<Suc 1]
              = [PostSearch [Fin 7] 0 10, PostSearch [Fin 7] 1 10]"
    by (simp add: upt_0_2)
  have first: "fetchAllTeachersForCategory not_ok_second_page (Fin 7)
     = Some (Inr [listing_at ''Math'' 20], [PostSearch [Fin 7] 0 10, PostSearch [Fin 7] 1 10])"
    using j(3) unfolding j1 t1 c1 r1 by simp
  from pager_terminates_at_first_ending_page [of ?P "Fin 7" 5 1000,
      THEN conjunct2, THEN conjunct1]
  have "\<exists>ts sent. fetchAllTeachersForCategory (long_service 1000) (Fin 7) = Some (Inr ts, sent)
         \<and> length sent = 1001"
    by simp
  with first show ?thesis by simp
qed

text \<open>C4 as stated fails: page 1 of this service is an empty batch, and the pager ends
  at page 0 by throwing, with no list returned.\<close>

theorem pager_throws_before_empty_batch:
  "empty_page (page_response unparsable_first_page (Fin 7) 1)
   \<and> fetchAllTeachersForCategory unparsable_first_page (Fin 7)
       = Some (Inl (JsError ''Unexpected token < in JSON at position 0''),
               [PostSearch [Fin 7] 0 10])"
proof -
  have e: "batch (page_response unparsable_first_page (Fin 7) 0) = []"
    by (simp add: unparsable_first_page_def page_response_mock served_def batch_def)
  show ?thesis
    using fetchAll_first_stop [of 0 unparsable_first_page "Fin 7"] e
    by (simp add: unparsable_first_page_def page_response_mock served_def empty_page_page_of
        ending_def thrown_by_def accumulated_def page_requests_def)
qed

text \<open>
  C5, as amended. After \<open>k\<close> successful non-empty pages: when the response for page \<open>k\<close>
  is not ok, the pager stops and returns exactly the listings of pages \<open>0..k-1\<close>, the
  same value it returns when page \<open>k\<close> is an empty batch, so nothing tells the caller
  that the result is partial; when the request for page \<open>k\<close> throws (the fetch rejects,
  or the body of an ok response does not parse), the pager throws that error and returns
  no listings, and the task of a subcategory with that code catches the error and records
  an outcome with status error, the average 0 and the error's message, having sent no
  publish request.
\<close>

theorem pager_partial_when_not_ok_throws_when_rejected:
  "(\<forall>i<k. batch (page_response P c i) \<noteq> [])
   \<longrightarrow> (not_ok_page (page_response P c k) \<or> empty_page (page_response P c k)
          \<longrightarrow> fetchAllTeachersForCategory P c
                = Some (Inr (concat (map (\<lambda>i. batch (page_response P c i)) [0..<k])),
                        map (\<lambda>i. PostSearch [c] i 10) [0..<Suc k]))
     \<and> (thrown_by (page_response P c k) = Some e
          \<longrightarrow> fetchAllTeachersForCategory P c
                = Some (Inl e, map (\<lambda>i. PostSearch [c] i 10) [0..<Suc k])
              \<and> (sub_code sub = c
                   \<longrightarrow> calculation P sub
                         = Some (\<lparr>categoryName = sub_name sub, averagePrice = Fin 0,
                                  status = StatusError, message = Some (caught_message e)\<rparr>,
                                 map (\<lambda>i. PostSearch [c] i 10) [0..<Suc k])))"
proof (intro conjI impI)
  assume b: "\<forall>i<k. batch (page_response P c i) \<noteq> []"
  {
    assume a: "not_ok_page (page_response P c k) \<or> empty_page (page_response P c k)"
    then have e: "batch (page_response P c k) = []" by (auto simp: batch_empty_iff)
    from a show "fetchAllTeachersForCategory P c
                = Some (Inr (concat (map (\<lambda>i. batch (page_response P c i)) [0..<k])),
                        map (\<lambda>i. PostSearch [c] i 10) [0..<Suc k])"
      unfolding fetchAll_first_stop [OF b e]
      by (auto simp: ending_cases accumulated_def page_requests_def)
  }
  {
    assume a: "thrown_by (page_response P c k) = Some e"
    then have e: "batch (page_response P c k) = []" by (simp add: batch_empty_iff)
    from a show thrown: "fetchAllTeachersForCategory P c
                = Some (Inl e, map (\<lambda>i. PostSearch [c] i 10) [0..<Suc k])"
      unfolding fetchAll_first_stop [OF b e]
      by (simp add: ending_cases page_requests_def)
    {
      assume "sub_code sub = c"
      with thrown
      have "fetchAllTeachersForCategory P (sub_code sub)
              = Some (Inl e, map (\<lambda>i. PostSearch [c] i 10) [0..<Suc k])"
        by simp
      then show "calculation P sub
                   = Some (\<lparr>categoryName = sub_name sub, averagePrice = Fin 0,
                            status = StatusError, message = Some (caught_message e)\<rparr>,
                           map (\<lambda>i. PostSearch [c] i 10) [0..<Suc k])"
        by (simp add: calculation_paging_throws error_result_def)
    }
  }
qed

theorem pager_partial_when_not_ok_throws_when_rejected_witness:
  "fetchAllTeachersForCategory not_ok_second_page (Fin 7)
     = Some (Inr [listing_at ''Math'' 20], [PostSearch [Fin 7] 0 10, PostSearch [Fin 7] 1 10])
   \<and> fetchAllTeachersForCategory rejects_second_page (Fin 7)
       = Some (Inl (JsError ''Failed to fetch''),
               [PostSearch [Fin 7] 0 10, PostSearch [Fin 7] 1 10])
   \<and> calculation rejects_second_page math
       = Some (\<lparr>categoryName = ''Math'', averagePrice = Fin 0, status = StatusError,
                message = Some ''Failed to fetch''\<rparr>,
               [PostSearch [Fin 7] 0 10, PostSearch [Fin 7] 1 10])"
proof -
  let ?P = not_ok_second_page
  let ?R = rejects_second_page
  have b: "\<forall>i<1. batch (page_response ?P (Fin 7) i) \<noteq> []"
    by (simp add: not_ok_second_page_def page_response_mock served_def batch_page_of)
  have n: "not_ok_page (page_response ?P (Fin 7) 1)"
    by (simp add: not_ok_second_page_def page_response_mock served_def not_ok_page_def)
  from pager_partial_when_not_ok_throws_when_rejected [of 1 ?P "Fin 7" NonError math,
      THEN mp, OF b, THEN conjunct1, THEN mp, OF disjI1 [OF n]]
  have first: "fetchAllTeachersForCategory not_ok_second_page (Fin 7)
     = Some (Inr [listing_at ''Math'' 20], [PostSearch [Fin 7] 0 10, PostSearch [Fin 7] 1 10])"
    by (simp add: upt_0_2 not_ok_second_page_def page_response_mock served_def batch_page_of)
  have b': "\<forall>i<1. batch (page_response ?R (Fin 7) i) \<noteq> []"
    by (simp add: rejects_second_page_def page_response_mock served_def batch_page_of)
  have t: "thrown_by (page_response ?R (Fin 7) 1) = Some (JsError ''Failed to fetch'')"
    by (simp add: rejects_second_page_def page_response_mock served_def thrown_by_def)
  have c: "sub_code math = Fin 7" by (simp add: math_def)
  note thrown = pager_partial_when_not_ok_throws_when_rejected
      [of 1 ?R "Fin 7" "JsError ''Failed to fetch''" math,
       THEN mp, OF b', THEN conjunct2, THEN mp, OF t]
  have second: "fetchAllTeachersForCategory rejects_second_page (Fin 7)
       = Some (Inl (JsError ''Failed to fetch''),
               [PostSearch [Fin 7] 0 10, PostSearch [Fin 7] 1 10])"
    using thrown [THEN conjunct1] by (simp add: upt_0_2)
  have third: "calculation rejects_second_page math
       = Some (\<lparr>categoryName = ''Math'', averagePrice = Fin 0, status = StatusError,
                message = Some ''Failed to fetch''\<rparr>,
               [PostSearch [Fin 7] 0 10, PostSearch [Fin 7] 1 10])"
    using thrown [THEN conjunct2, THEN mp, OF c]
    by (simp add: upt_0_2 math_def caught_message_def)
  from first second third show ?thesis by simp
qed

text \<open>C5 as stated fails: the request for page 1 fails by rejecting, and the pager
  throws; the listing of page 0 is not returned, and the task of the subcategory records
  an outcome with status error.\<close>

theorem rejected_page_request_raises:
  "batch (page_response rejects_second_page (Fin 7) 0) = [listing_at ''Math'' 20]
   \<and> page_response rejects_second_page (Fin 7) 1 = Rejects (JsError ''Failed to fetch'')
   \<and> fetchAllTeachersForCategory rejects_second_page (Fin 7)
       = Some (Inl (JsError ''Failed to fetch''),
               [PostSearch [Fin 7] 0 10, PostSearch [Fin 7] 1 10])
   \<and> calculation rejects_second_page math
       = Some (\<lparr>categoryName = ''Math'', averagePrice = Fin 0, status = StatusError,
                message = Some ''Failed to fetch''\<rparr>,
               [PostSearch [Fin 7] 0 10, PostSearch [Fin 7] 1 10])"
proof -
  have r: "batch (Rejects (JsError ''Failed to fetch'') :: search_response fetch) = []"
    by (simp add: batch_def)
  have t: "thrown_by (Rejects (JsError ''Failed to fetch'') :: search_response fetch)
             = Some (JsError ''Failed to fetch'')"
    by (simp add: thrown_by_def)
  have p: "fetchAllTeachersForCategory rejects_second_page (Fin 7)
       = Some (Inl (JsError ''Failed to fetch''),
               [PostSearch [Fin 7] 0 10, PostSearch [Fin 7] 1 10])"
    using fetchAll_mock_second_page [OF rejects_second_page_def r, of "Fin 7"]
    by (simp add: ending_def t)
  have "fetchAllTeachersForCategory rejects_second_page (sub_code math)
       = Some (Inl (JsError ''Failed to fetch''),
               [PostSearch [Fin 7] 0 10, PostSearch [Fin 7] 1 10])"
    using p by (simp add: math_def)
  then have c: "calculation rejects_second_page math
       = Some (\<lparr>categoryName = ''Math'', averagePrice = Fin 0, status = StatusError,
                message = Some ''Failed to fetch''\<rparr>,
               [PostSearch [Fin 7] 0 10, PostSearch [Fin 7] 1 10])"
    by (simp add: calculation_paging_throws error_result_def caught_message_def math_def)
  show ?thesis
    using p c
    by (simp add: rejects_second_page_def page_response_mock served_def batch_page_of)
qed

section \<open>One subcategory's task\<close>

lemma roundedAveragePrice_no_contribution:
  "snd (scan_teachers ts name) = 0 \<Longrightarrow> roundedAveragePrice ts name = Fin 0"
  by (simp add: roundedAveragePrice_spec scan_teachers_contributions spec_average_Nil)

lemma postAveragePrice_mock:
  "postAveragePrice (mock cats pages publish) name avg =
     (case publish name avg of
        Rejects e \<Rightarrow> Inl e
      | Resolves ok body \<Rightarrow>
          if ok then Inr () else Inl (JsError (''Failed to post average price for '' @ name)))"
  by (simp add: postAveragePrice_def mock_def split: fetch.splits)

lemma roundedAveragePrice_one_listing_10:
  "roundedAveragePrice [listing_at ''Math'' 10] ''Math'' = Fin 10"
  by (simp add: roundedAveragePrice_spec contributions_def map_filter_simps
      contributions_listing_at spec_average_def js_literal_def rnd64_eval)

lemma roundedAveragePrice_other_name:
  "name \<noteq> name' \<Longrightarrow> roundedAveragePrice [listing_at name' q] name = Fin 0"
  by (simp add: roundedAveragePrice_spec contributions_def map_filter_simps contribution_def
      listing_at_def spec_average_Nil)

text \<open>
  C8. When the listings scanned for a subcategory yield no contributing price, the
  computed average is 0; when the publish call then succeeds, the outcome of the
  subcategory has status success and the average 0.
\<close>

theorem zero_contributions_is_success:
  assumes "fetchAllTeachersForCategory P (sub_code sub) = Some (Inr ts, sent)"
    and "snd (scan_teachers ts (sub_name sub)) = 0"
    and "postAveragePrice P (sub_name sub) (Fin 0) = Inr ()"
  shows "average_of (scan_teachers ts (sub_name sub)) = Fin 0
    \<and> roundedAveragePrice ts (sub_name sub) = Fin 0
    \<and> (\<exists>r sent'. calculation P sub = Some (r, sent')
          \<and> status r = StatusSuccess \<and> averagePrice r = Fin 0)"
proof -
  have z: "roundedAveragePrice ts (sub_name sub) = Fin 0"
    using assms(2) by (rule roundedAveragePrice_no_contribution)
  have "calculation P sub
          = Some (success_result P sub ts, sent @ [PostAveragePrice (sub_name sub) (Fin 0)])"
    using calculation_publish_succeeds [OF assms(1), of "()"] assms(3) by (simp add: z)
  then show ?thesis
    using assms(2) by (simp add: z average_of_def success_result_def)
qed

theorem zero_contributions_is_success_witness:
  "\<exists>r sent. calculation no_match_service math = Some (r, sent)
     \<and> status r = StatusSuccess \<and> averagePrice r = Fin 0"
proof -
  let ?ts = "[listing_at ''Chess'' 15, \<lparr>teacher_id = ''t2'', categories = None\<rparr>]"
  have p: "fetchAllTeachersForCategory no_match_service (sub_code math)
             = Some (Inr ?ts, [PostSearch [Fin 7] 0 10, PostSearch [Fin 7] 1 10])"
    using fetchAll_mock_one_page [OF no_match_service_def, of "sub_code math"]
    by (simp add: math_def)
  have c: "snd (scan_teachers ?ts (sub_name math)) = 0"
    by (simp add: scan_teachers_contributions contributions_def map_filter_simps
        contribution_def listing_at_def math_def)
  have q: "postAveragePrice no_match_service (sub_name math) (Fin 0) = Inr ()"
    by (simp add: no_match_service_def postAveragePrice_mock publish_ok_def)
  from zero_contributions_is_success [OF p c q] show ?thesis by blast
qed

text \<open>
  C10. An outcome with status error has the average 0, whatever was thrown and wherever
  (paging or publishing; the aggregation between them throws nothing). In particular,
  when the publish call fails, the computed average was sent in the request and the
  recorded outcome still has the average 0.
\<close>

theorem failure_outcome_has_zero_average:
  "(calculation P sub = Some (r, sent) \<and> status r = StatusError \<longrightarrow> averagePrice r = Fin 0)
   \<and> (fetchAllTeachersForCategory P (sub_code sub) = Some (Inl e, sent0)
        \<longrightarrow> calculation P sub
              = Some (\<lparr>categoryName = sub_name sub, averagePrice = Fin 0, status = StatusError,
                       message = Some (caught_message e)\<rparr>, sent0))
   \<and> (fetchAllTeachersForCategory P (sub_code sub) = Some (Inr ts, sent0)
        \<and> postAveragePrice P (sub_name sub) (roundedAveragePrice ts (sub_name sub)) = Inl e
        \<longrightarrow> calculation P sub
              = Some (\<lparr>categoryName = sub_name sub, averagePrice = Fin 0, status = StatusError,
                       message = Some (caught_message e)\<rparr>,
                      sent0 @ [PostAveragePrice (sub_name sub)
                                 (roundedAveragePrice ts (sub_name sub))]))"
proof (intro conjI impI)
  assume a: "calculation P sub = Some (r, sent) \<and> status r = StatusError"
  then consider e' where "r = error_result sub e'" | ts' where "r = success_result P sub ts'"
    using calculation_cases by blast
  then show "averagePrice r = Fin 0"
  proof cases
    case 1
    then show ?thesis by (simp add: error_result_def)
  next
    case 2
    with a show ?thesis by (simp add: success_result_def)
  qed
next
  assume "fetchAllTeachersForCategory P (sub_code sub) = Some (Inl e, sent0)"
  then show "calculation P sub
              = Some (\<lparr>categoryName = sub_name sub, averagePrice = Fin 0, status = StatusError,
                       message = Some (caught_message e)\<rparr>, sent0)"
    by (simp add: calculation_paging_throws error_result_def)
next
  assume "fetchAllTeachersForCategory P (sub_code sub) = Some (Inr ts, sent0)
        \<and> postAveragePrice P (sub_name sub) (roundedAveragePrice ts (sub_name sub)) = Inl e"
  then show "calculation P sub
              = Some (\<lparr>categoryName = sub_name sub, averagePrice = Fin 0, status = StatusError,
                       message = Some (caught_message e)\<rparr>,
                      sent0 @ [PostAveragePrice (sub_name sub)
                                 (roundedAveragePrice ts (sub_name sub))])"
    by (simp add: calculation_publish_fails error_result_def)
qed

theorem failure_outcome_has_zero_average_witness:
  "calculation refuses_publish math
     = Some (\<lparr>categoryName = ''Math'', averagePrice = Fin 0, status = StatusError,
              message = Some ''Failed to post average price for Math''\<rparr>,
             [PostSearch [Fin 7] 0 10, PostSearch [Fin 7] 1 10, PostAveragePrice ''Math'' (Fin 10)])"
proof -
  have p: "fetchAllTeachersForCategory refuses_publish (sub_code math)
             = Some (Inr [listing_at ''Math'' 10], [PostSearch [Fin 7] 0 10, PostSearch [Fin 7] 1 10])"
    using fetchAll_mock_one_page [OF refuses_publish_def, of "sub_code math"]
    by (simp add: math_def)
  have q: "postAveragePrice refuses_publish (sub_name math)
             (roundedAveragePrice [listing_at ''Math'' 10] (sub_name math))
           = Inl (JsError ''Failed to post average price for Math'')"
    by (simp add: refuses_publish_def postAveragePrice_mock math_def)
  from failure_outcome_has_zero_average
         [of refuses_publish math _ _ _ _ "[listing_at ''Math'' 10]",
          THEN conjunct2, THEN conjunct2, THEN mp, OF conjI [OF p q]]
  show ?thesis
    by (simp add: math_def roundedAveragePrice_one_listing_10 caught_message_def)
qed

section \<open>The run\<close>

lemma fetchCategories_ok:
  "categories_endpoint P = Resolves True (Inr body) \<Longrightarrow> fetchCategories P = Inr body"
  by (simp add: fetchCategories_def)

lemma batch_Rejects: "batch (Rejects e) = []"
  by (simp add: batch_def)

lemma started_simps:
  "isLoading (started s) = True" "results (started s) = []" "error (started s) = None"
  by (simp_all add: started_def)

lemma handle_no_subcategories:
  assumes "categories_endpoint P = Resolves True (Inr (Some cats))"
    and "allSubcategories cats = []"
  shows "\<exists>s'. handleCalculatePrices P s = Some (s', [])
           \<and> results s' = [] \<and> isLoading s' = False"
  using assms
  by (cases "cats = []")
     (simp_all add: handleCalculatePrices_def fetchCategories_ok started_simps)

lemma handle_all_settled:
  assumes "categories_endpoint P = Resolves True (Inr (Some cats))"
    and "allSubcategories cats \<noteq> []"
    and "\<forall>x\<in>set (allSubcategories cats). calculation P x = Some (g x)"
  shows "handleCalculatePrices P s
           = Some ((started s)\<lparr>results := map (\<lambda>x. fst (g x)) (allSubcategories cats),
                                isLoading := False\<rparr>,
                   map (\<lambda>x. snd (g x)) (allSubcategories cats))"
proof -
  have "cats \<noteq> []" using assms(2) by (auto simp: allSubcategories_def)
  then show ?thesis
    using assms(2)
    by (simp add: handleCalculatePrices_def fetchCategories_ok [OF assms(1)]
        Promise_all_map [OF assms(3)] comp_def)
qed

text \<open>
  C1. When the catalog is fetched and the paging of every subcategory reaches a page that
  ends it (so that every task settles, as a success or as a failure), the run completes
  and leaves exactly one outcome per subcategory of the flattened catalog, in the order of
  the flattened catalog: the outcome at each position is the one of the task of the
  subcategory at that position and carries its name. With at least one subcategory no
  top-level error is set.
\<close>

theorem report_one_outcome_per_subcategory:
  assumes "categories_endpoint P = Resolves True (Inr (Some cats))"
    and "\<forall>sub\<in>set (allSubcategories cats). \<exists>k. batch (page_response P (sub_code sub) k) = []"
  shows "\<exists>s' sent. handleCalculatePrices P s = Some (s', sent)
    \<and> length (results s') = length (allSubcategories cats)
    \<and> map categoryName (results s') = map sub_name (allSubcategories cats)
    \<and> (\<forall>i<length (allSubcategories cats).
          calculation P (allSubcategories cats ! i) = Some (results s' ! i, sent ! i))
    \<and> isLoading s' = False
    \<and> (allSubcategories cats \<noteq> [] \<longrightarrow> error s' = None)"
proof (cases "allSubcategories cats = []")
  case True
  from handle_no_subcategories [OF assms(1) True, of s] obtain s' where
    "handleCalculatePrices P s = Some (s', [])" "results s' = []" "isLoading s' = False"
    by blast
  then show ?thesis using True by simp
next
  case False
  let ?subs = "allSubcategories cats"
  let ?g = "\<lambda>x. the (calculation P x)"
  have settle: "\<forall>x\<in>set ?subs. calculation P x = Some (?g x)"
  proof
    fix x
    assume "x \<in> set ?subs"
    with assms(2) obtain k where "batch (page_response P (sub_code x) k) = []" by blast
    then obtain r sent where "fetchAllTeachersForCategory P (sub_code x) = Some (r, sent)"
      using fetchAll_settles by blast
    then obtain res sent' where "calculation P x = Some (res, sent')"
      using calculation_settles by blast
    then show "calculation P x = Some (?g x)" by simp
  qed
  have run: "handleCalculatePrices P s
           = Some ((started s)\<lparr>results := map (\<lambda>x. fst (?g x)) ?subs, isLoading := False\<rparr>,
                   map (\<lambda>x. snd (?g x)) ?subs)"
    by (rule handle_all_settled [OF assms(1) False settle])
  have names: "map categoryName (map (\<lambda>x. fst (?g x)) ?subs) = map sub_name ?subs"
  proof (simp, intro ballI)
    fix x
    assume "x \<in> set ?subs"
    with settle have "calculation P x = Some (fst (?g x), snd (?g x))" by simp
    then show "categoryName (fst (?g x)) = sub_name x" by (rule calculation_categoryName)
  qed
  have each: "\<forall>i<length ?subs. calculation P (?subs ! i)
      = Some (map (\<lambda>x. fst (?g x)) ?subs ! i, map (\<lambda>x. snd (?g x)) ?subs ! i)"
    using settle by simp
  show ?thesis
    unfolding run using names each by (simp add: started_simps)
qed

theorem report_one_outcome_per_subcategory_witness:
  "\<exists>s' sent. handleCalculatePrices school idle = Some (s', sent)
     \<and> map categoryName (results s') = [''Math'', ''Physics'', ''Piano'']
     \<and> isLoading s' = False \<and> error s' = None"
proof -
  have subs: "allSubcategories catalog = [math, physics, piano]"
    by (simp add: allSubcategories_def catalog_def)
  have c: "categories_endpoint school = Resolves True (Inr (Some catalog))"
    by (simp add: school_def mock_def)
  have p: "\<forall>sub\<in>set (allSubcategories catalog).
             \<exists>k. batch (page_response school (sub_code sub) k) = []"
  proof -
    have "batch (page_response school (sub_code math) 1) = []"
      by (simp add: school_def page_response_mock served_def batch_page_of math_def)
    moreover have "batch (page_response school (sub_code physics) 0) = []"
      by (simp add: school_def page_response_mock served_def batch_Rejects physics_def)
    moreover have "batch (page_response school (sub_code piano) 0) = []"
      by (simp add: school_def page_response_mock served_def batch_page_of piano_def)
    ultimately show ?thesis unfolding subs by auto
  qed
  from report_one_outcome_per_subcategory [OF c p, of idle]
  show ?thesis
    by (auto simp: subs math_def physics_def piano_def)
qed

text \<open>
  C6. When the catalog fetch fails (the request rejects, the response is not ok, or its
  body does not parse), the run ends with no task launched and no request sent by any
  task, the result collection empty, the error's message as the one top-level error, and
  the busy flag, set while the run was in flight, back to false.
\<close>

theorem catalog_failure_aborts_run:
  "(categories_endpoint P = Rejects e \<or> categories_endpoint P = Resolves True (Inl e)
      \<or> (categories_endpoint P = Resolves False body \<and> e = JsError ''Failed to fetch categories''))
   \<longrightarrow> handleCalculatePrices P s
         = Some (s\<lparr>isLoading := False, results := [], error := Some (top_level_message e)\<rparr>, [])
       \<and> isLoading (started s) = True"
  by (auto simp: handleCalculatePrices_def fetchCategories_def started_def)

theorem catalog_failure_aborts_run_witness:
  "handleCalculatePrices catalog_down idle
     = Some (\<lparr>isLoading = False, results = [], error = Some ''Failed to fetch categories''\<rparr>, [])"
  using catalog_failure_aborts_run
    [of catalog_down "JsError ''Failed to fetch categories''" "Inl NonError" idle]
  by (simp add: catalog_down_def mock_def idle_def top_level_message_def)

text \<open>
  C7. In a run over \<open>N\<close> subcategories whose pagings all return their listings, where the
  publish call of the subcategory at position \<open>i\<close> fails and every other publish call
  succeeds, the run leaves \<open>N\<close> outcomes: the one at position \<open>i\<close> has status error, the
  average 0 and the message of the error; every other outcome is the success outcome of
  its own subcategory and listings; \<open>N - 1\<close> outcomes have status success and one has
  status error.
\<close>

theorem one_publish_failure_is_isolated:
  assumes "categories_endpoint P = Resolves True (Inr (Some cats))"
    and "subs = allSubcategories cats"
    and "i < length subs"
    and "\<forall>j<length subs. \<exists>sent.
           fetchAllTeachersForCategory P (sub_code (subs ! j)) = Some (Inr (listings j), sent)"
    and "postAveragePrice P (sub_name (subs ! i))
           (roundedAveragePrice (listings i) (sub_name (subs ! i))) = Inl e"
    and "\<forall>j<length subs. j \<noteq> i \<longrightarrow>
           postAveragePrice P (sub_name (subs ! j))
             (roundedAveragePrice (listings j) (sub_name (subs ! j))) = Inr ()"
  shows "\<exists>s' sent. handleCalculatePrices P s = Some (s', sent)
    \<and> length (results s') = length subs
    \<and> results s' ! i
        = \<lparr>categoryName = sub_name (subs ! i), averagePrice = Fin 0, status = StatusError,
           message = Some (caught_message e)\<rparr>
    \<and> (\<forall>j<length subs. j \<noteq> i \<longrightarrow>
          results s' ! j = success_result P (subs ! j) (listings j)
          \<and> status (results s' ! j) = StatusSuccess
          \<and> averagePrice (results s' ! j) = roundedAveragePrice (listings j) (sub_name (subs ! j)))
    \<and> length (filter (\<lambda>r. status r = StatusSuccess) (results s')) = length subs - 1
    \<and> length (filter (\<lambda>r. status r = StatusError) (results s')) = 1"
proof -
  let ?g = "\<lambda>x. the (calculation P x)"
  let ?rs = "map (\<lambda>x. fst (?g x)) subs"
  have at_i: "\<exists>sent. calculation P (subs ! i) = Some (error_result (subs ! i) e, sent)"
    using assms(3,4,5) calculation_publish_fails by blast
  have at_j: "\<exists>sent. calculation P (subs ! j) = Some (success_result P (subs ! j) (listings j), sent)"
    if "j < length subs" "j \<noteq> i" for j
    using that assms(4,6) calculation_publish_succeeds by blast
  have settle: "\<forall>x\<in>set subs. calculation P x = Some (?g x)"
  proof
    fix x
    assume "x \<in> set subs"
    then obtain j where j: "j < length subs" "x = subs ! j" by (auto simp: in_set_conv_nth)
    show "calculation P x = Some (?g x)"
    proof (cases "j = i")
      case True
      with at_i j show ?thesis by auto
    next
      case False
      with at_j [OF j(1)] j show ?thesis by auto
    qed
  qed
  have ne: "allSubcategories cats \<noteq> []" using assms(2,3) by auto
  have run: "handleCalculatePrices P s
           = Some ((started s)\<lparr>results := ?rs, isLoading := False\<rparr>, map (\<lambda>x. snd (?g x)) subs)"
    using handle_all_settled [OF assms(1) ne, of ?g s] settle by (simp add: assms(2))
  have ri: "?rs ! i = error_result (subs ! i) e"
    using at_i assms(3) by auto
  have rj: "?rs ! j = success_result P (subs ! j) (listings j)"
    if "j < length subs" "j \<noteq> i" for j
    using at_j [OF that] that(1) by auto
  have si: "status (?rs ! i) = StatusError"
    unfolding ri by (simp add: error_result_def)
  have sj: "\<forall>j<length ?rs. j \<noteq> i \<longrightarrow> status (?rs ! j) = StatusSuccess"
    using rj by (simp add: success_result_def)
  have li: "i < length ?rs" using assms(3) by simp
  note counts = count_one_error [OF li si sj]
  have "length ?rs = length subs" by simp
  moreover have "?rs ! i = \<lparr>categoryName = sub_name (subs ! i), averagePrice = Fin 0,
      status = StatusError, message = Some (caught_message e)\<rparr>"
    unfolding ri by (simp add: error_result_def)
  moreover have "\<forall>j<length subs. j \<noteq> i \<longrightarrow>
          ?rs ! j = success_result P (subs ! j) (listings j)
          \<and> status (?rs ! j) = StatusSuccess
          \<and> averagePrice (?rs ! j) = roundedAveragePrice (listings j) (sub_name (subs ! j))"
    using rj by (simp add: success_result_def)
  moreover have "length (filter (\<lambda>r. status r = StatusSuccess) ?rs) = length subs - 1"
    using counts(2) by simp
  moreover have "length (filter (\<lambda>r. status r = StatusError) ?rs) = 1"
    using counts(1) by simp
  ultimately show ?thesis
    unfolding run by (auto simp: started_simps)
qed

theorem one_publish_failure_is_isolated_witness:
  "\<exists>s' sent. handleCalculatePrices school_refusing_physics idle = Some (s', sent)
     \<and> map status (results s') = [StatusSuccess, StatusError, StatusSuccess]
     \<and> map averagePrice (results s') = [Fin 10, Fin 0, Fin 0]
     \<and> message (results s' ! 1) = Some ''Failed to post average price for Physics''"
proof -
  let ?P = school_refusing_physics
  let ?subs = "[math, physics, piano]"
  let ?l = "\<lambda>j::nat. [listing_at ''Math'' 10]"
  have subs: "?subs = allSubcategories catalog"
    by (simp add: allSubcategories_def catalog_def)
  have c: "categories_endpoint ?P = Resolves True (Inr (Some catalog))"
    by (simp add: school_refusing_physics_def mock_def)
  have i: "1 < length ?subs" by simp
  have p: "\<forall>j<length ?subs. \<exists>sent.
           fetchAllTeachersForCategory ?P (sub_code (?subs ! j)) = Some (Inr (?l j), sent)"
    using fetchAll_mock_one_page [OF school_refusing_physics_def] by simp
  have q1: "postAveragePrice ?P (sub_name (?subs ! 1))
              (roundedAveragePrice (?l 1) (sub_name (?subs ! 1)))
            = Inl (JsError ''Failed to post average price for Physics'')"
    by (simp add: school_refusing_physics_def postAveragePrice_mock publish_ok_but_def physics_def)
  have q: "\<forall>j<length ?subs. j \<noteq> 1 \<longrightarrow>
           postAveragePrice ?P (sub_name (?subs ! j))
             (roundedAveragePrice (?l j) (sub_name (?subs ! j))) = Inr ()"
  proof (intro allI impI)
    fix j :: nat
    assume "j < length ?subs" "j \<noteq> 1"
    then have "j = 0 \<or> j = 2" by auto
    then show "postAveragePrice ?P (sub_name (?subs ! j))
             (roundedAveragePrice (?l j) (sub_name (?subs ! j))) = Inr ()"
      by (auto simp: school_refusing_physics_def postAveragePrice_mock publish_ok_but_def
          math_def piano_def)
  qed
  from one_publish_failure_is_isolated [OF c subs i p q1 q, of idle]
  obtain s' sent where r: "handleCalculatePrices ?P idle = Some (s', sent)"
    "length (results s') = 3"
    "results s' ! 1 = \<lparr>categoryName = sub_name (?subs ! 1), averagePrice = Fin 0,
        status = StatusError,
        message = Some (caught_message (JsError ''Failed to post average price for Physics''))\<rparr>"
    "\<forall>j<3. j \<noteq> 1 \<longrightarrow> results s' ! j = success_result ?P (?subs ! j) (?l j)"
    by auto
  from r(2) obtain a b d where abd: "results s' = [a, b, d]"
    by (auto simp: length_Suc_conv numeral_3_eq_3)
  have a: "a = success_result ?P math [listing_at ''Math'' 10]"
    using r(4) abd by (simp add: all_less_3)
  have d: "d = success_result ?P piano [listing_at ''Math'' 10]"
    using r(4) abd by (simp add: all_less_3)
  have b: "b = \<lparr>categoryName = ''Physics'', averagePrice = Fin 0, status = StatusError,
        message = Some ''Failed to post average price for Physics''\<rparr>"
    using r(3) abd by (simp add: physics_def caught_message_def)
  show ?thesis
    using r(1)
    by (simp add: abd a b d success_result_def math_def piano_def
        roundedAveragePrice_one_listing_10 roundedAveragePrice_other_name)
qed

end
